theory Spec2Isabelle
  imports Complex_Main
begin

section \<open>The correlation layer of agent-demo-backend\<close>

text \<open>
  The theory embeds the request/response correlation code of
  \<^verbatim>\<open>agent-demo-backend/main.py\<close>, \<^verbatim>\<open>builtin_actions.py\<close> and
  \<^verbatim>\<open>session_manager.py\<close>.

  The server runs on one asyncio event loop. A coroutine runs without interruption
  until it awaits something that is not ready, so every handler is cut at its
  suspension points into segments, and each segment is one function on the
  module-level state. The suspension points of the source are the two
  \<^verbatim>\<open>asyncio.wait_for(future, ...)\<close> of the built-in actions, the one of
  \<^verbatim>\<open>frontend_action\<close>, and the \<^verbatim>\<open>run_in_executor\<close> awaits of
  \<^verbatim>\<open>user_prompt\<close> and \<^verbatim>\<open>disconnect\<close>.
  \<^verbatim>\<open>await _generate_speech(...)\<close> is not one: the coroutine
  \<^verbatim>\<open>_generate_speech\<close> has no await of its own (it calls boto3 synchronously), so
  awaiting it runs it to completion inside the caller's segment. Its result, like a
  fresh \<^verbatim>\<open>uuid4\<close>, a clock reading or the outcome of a remote call, is an argument
  of the segment that uses it. \<^verbatim>\<open>sio.emit\<close> appends to a log of emitted events;
  in the three handlers that dispatch to the peer its failure is an argument too
  (the message of the exception it raises), elsewhere it is taken to succeed.

  Inputs are typed as the source documents them: identifiers, messages, questions,
  voices and prompts are strings, \<^verbatim>\<open>wait_for_completion\<close> is a boolean,
  \<^verbatim>\<open>timeout\<close> a whole number of seconds. The \<^verbatim>\<open>user_response\<close> event is the
  exception: its handler slices and tests the raw values it receives, so the model
  reads them raw, and the answer that reaches the waiting task is whatever value the
  peer sent. Nothing in the repository cancels a running task, so no task is cancelled
  from outside.
\<close>

subsection \<open>Values\<close>

type_synonym sid = string
type_synonym token = string
type_synonym fut_id = nat
type_synonym timestamp = real

datatype json =
    JNull
  | JBool bool
  | JNum real
  | JStr string
  | JList "json list"
  | JObj "(string \<times> json) list"

type_synonym dict = "(string \<times> json) list"

text \<open>\<^verbatim>\<open>d.get(k, default)\<close> on a dictionary.\<close>

definition dict_get :: "dict \<Rightarrow> string \<Rightarrow> json \<Rightarrow> json" where
  "dict_get d k dflt = (case map_of d k of None \<Rightarrow> dflt | Some v \<Rightarrow> v)"

text \<open>
  What Python does with a raw value: its truth value, whether it can be sliced
  (\<^verbatim>\<open>v[:50]\<close>), and whether it can be looked up as a dictionary key.
\<close>

fun truthy :: "json \<Rightarrow> bool" where
  "truthy JNull = False"
| "truthy (JBool b) = b"
| "truthy (JNum r) = (r \<noteq> 0)"
| "truthy (JStr s) = (s \<noteq> [])"
| "truthy (JList xs) = (xs \<noteq> [])"
| "truthy (JObj kvs) = (kvs \<noteq> [])"

fun subscriptable :: "json \<Rightarrow> bool" where
  "subscriptable (JStr s) = True"
| "subscriptable (JList xs) = True"
| "subscriptable v = False"

fun hashable :: "json \<Rightarrow> bool" where
  "hashable (JList xs) = False"
| "hashable (JObj kvs) = False"
| "hashable v = True"

text \<open>The typed reads of a parameter: the value under the key, or the default.\<close>

definition get_str :: "dict \<Rightarrow> string \<Rightarrow> string \<Rightarrow> string" where
  "get_str d k dflt = (case map_of d k of Some (JStr s) \<Rightarrow> s | _ \<Rightarrow> dflt)"

definition get_bool :: "dict \<Rightarrow> string \<Rightarrow> bool \<Rightarrow> bool" where
  "get_bool d k dflt = (case map_of d k of Some (JBool b) \<Rightarrow> b | _ \<Rightarrow> dflt)"

definition get_int :: "dict \<Rightarrow> string \<Rightarrow> int \<Rightarrow> int" where
  "get_int d k dflt = (case map_of d k of Some (JNum r) \<Rightarrow> \<lfloor>r\<rfloor> | _ \<Rightarrow> dflt)"

definition get_token :: "dict \<Rightarrow> string \<Rightarrow> token option" where
  "get_token d k = (case map_of d k of Some (JStr s) \<Rightarrow> Some s | _ \<Rightarrow> None)"

definition get_obj :: "dict \<Rightarrow> string \<Rightarrow> dict \<Rightarrow> dict" where
  "get_obj d k dflt = (case map_of d k of Some (JObj kvs) \<Rightarrow> kvs | _ \<Rightarrow> dflt)"

text \<open>\<^verbatim>\<open>str(n)\<close> of an integer, for the f-string of the timeout message.\<close>

definition digit_char :: "nat \<Rightarrow> char" where
  "digit_char d = ''0123456789'' ! d"

fun str_nat :: "nat \<Rightarrow> string" where
  "str_nat n = (if n < 10 then [digit_char n] else str_nat (n div 10) @ [digit_char (n mod 10)])"

declare str_nat.simps [simp del]

definition str_int :: "int \<Rightarrow> string" where
  "str_int i = (if i < 0 then CHR ''-'' # str_nat (nat (- i)) else str_nat (nat i))"

subsection \<open>Exceptions and outcomes\<close>

text \<open>
  \<^verbatim>\<open>HTTPException(status_code, detail)\<close> carries its detail, which the source
  either writes out or takes as \<^verbatim>\<open>str(e)\<close> of the exception it caught.
\<close>

datatype exc =
    PyException string
  | HTTPException nat detail
and detail =
    Text string
  | StrOf exc

text \<open>
  A segment returns a value, raises, or suspends with the continuation that the event
  loop resumes later.
\<close>

datatype 'k outcome = Return json | Raise exc | Await 'k

subsection \<open>Futures and the module-level state\<close>

text \<open>
  An \<^verbatim>\<open>asyncio.Future\<close> is an object shared by the table that holds it and by
  the task that awaits it, so futures live in a store and the tables hold addresses.
\<close>

datatype fut = Pending | Finished json | Cancelled

definition is_done :: "fut \<Rightarrow> bool" where
  "is_done f = (f \<noteq> Pending)"

record session =
  runtime_session_id :: string
  created_at :: timestamp
  last_activity :: timestamp

type_synonym emitted = "string \<times> json \<times> sid"

record state =
  pending_tool_calls :: "token \<rightharpoonup> fut_id"
  connected_clients :: "sid set"
  agent_processing_lock :: "sid \<rightharpoonup> bool"
  pending_speech_completions :: "token \<rightharpoonup> fut_id"
  active_speech_per_client :: "sid \<rightharpoonup> token"
  pending_user_responses :: "token \<rightharpoonup> fut_id"
  sessions :: "sid \<rightharpoonup> session"
  futures :: "fut_id \<rightharpoonup> fut"
  next_future :: fut_id
  outbox :: "emitted list"

definition init :: state where
  "init = \<lparr> pending_tool_calls = Map.empty, connected_clients = {},
            agent_processing_lock = Map.empty, pending_speech_completions = Map.empty,
            active_speech_per_client = Map.empty, pending_user_responses = Map.empty,
            sessions = Map.empty, futures = Map.empty, next_future = 0, outbox = [] \<rparr>"

text \<open>\<^verbatim>\<open>asyncio.Future()\<close>: a new pending future at a fresh address.\<close>

definition new_future :: "state \<Rightarrow> state \<times> fut_id" where
  "new_future st =
     (st\<lparr>futures := (futures st)(next_future st \<mapsto> Pending),
         next_future := Suc (next_future st)\<rparr>, next_future st)"

definition fut_done :: "state \<Rightarrow> fut_id \<Rightarrow> bool" where
  "fut_done st f = (case futures st f of Some v \<Rightarrow> is_done v | None \<Rightarrow> False)"

definition set_result :: "state \<Rightarrow> fut_id \<Rightarrow> json \<Rightarrow> state" where
  "set_result st f v = st\<lparr>futures := (futures st)(f \<mapsto> Finished v)\<rparr>"

text \<open>What \<^verbatim>\<open>wait_for\<close> does to the future when its timeout fires.\<close>

definition cancel_future :: "state \<Rightarrow> fut_id \<Rightarrow> state" where
  "cancel_future st f = st\<lparr>futures := (futures st)(f \<mapsto> Cancelled)\<rparr>"

definition emit :: "state \<Rightarrow> string \<Rightarrow> json \<Rightarrow> sid \<Rightarrow> state" where
  "emit st ev data room = st\<lparr>outbox := outbox st @ [(ev, data, room)]\<rparr>"

subsection \<open>Suspended tasks\<close>

text \<open>
  One constructor for each await that can suspend, holding the local variables that
  the rest of the coroutine reads.
\<close>

datatype task =
    SpeakWait sid token fut_id string
  | AskWait sid token fut_id string int
  | ToolWait token fut_id
  | TurnInvoke sid
  | TurnRead sid
  | DisconnectStop sid

subsection \<open>builtin\_actions.py\<close>

definition already_in_progress :: "token \<Rightarrow> dict" where
  "already_in_progress active_speech_id =
     [(''success'', JBool False),
      (''error'', JStr (''Speech already in progress (ID: '' @ active_speech_id
                        @ ''). Please wait for it to complete.''))]"

definition speech_sent :: "string \<Rightarrow> token \<Rightarrow> dict" where
  "speech_sent message speech_id =
     [(''success'', JBool True), (''end_turn'', JBool True),
      (''message'', JStr ''Speech sent to user''), (''text'', JStr message),
      (''speech_id'', JStr speech_id)]"

text \<open>The \<^verbatim>\<open>finally\<close> block of \<^verbatim>\<open>handle_speak_to_user\<close>.\<close>

definition speak_finally :: "state \<Rightarrow> sid \<Rightarrow> token \<Rightarrow> state" where
  "speak_finally st client_sid speech_id =
     (let st1 = (if speech_id \<in> dom (pending_speech_completions st)
                 then st\<lparr>pending_speech_completions :=
                          (pending_speech_completions st)(speech_id := None)\<rparr>
                 else st)
      in if client_sid \<in> dom (active_speech_per_client st1)
            \<and> active_speech_per_client st1 client_sid = Some speech_id
         then st1\<lparr>active_speech_per_client :=
                    (active_speech_per_client st1)(client_sid := None)\<rparr>
         else st1)"

text \<open>
  \<^verbatim>\<open>handle_speak_to_user\<close> up to its return or to the
  \<^verbatim>\<open>wait_for(future, timeout=60.0)\<close>. \<open>audio_base64\<close> is what
  \<^verbatim>\<open>_generate_speech\<close> returns, \<open>speech_id\<close> the \<^verbatim>\<open>uuid4\<close>.
\<close>

definition handle_speak_to_user ::
  "state \<Rightarrow> sid \<Rightarrow> dict \<Rightarrow> string option \<Rightarrow> token \<Rightarrow> string option
     \<Rightarrow> state \<times> task outcome" where
  "handle_speak_to_user st client_sid parameters audio_base64 speech_id emit_exc =
     (let message = get_str parameters ''message'' '''';
          voice = get_str parameters ''voice'' ''Joanna'';
          wait_for_completion = get_bool parameters ''wait_for_completion'' True
      in if message = ''''
         then (st, Return (JObj [(''success'', JBool False),
                                 (''error'', JStr ''Missing 'message' parameter'')]))
         else case active_speech_per_client st client_sid of
           Some active_speech_id \<Rightarrow> (st, Return (JObj (already_in_progress active_speech_id)))
         | None \<Rightarrow>
            (case audio_base64 of
               None \<Rightarrow> (st, Return (JObj [(''success'', JBool False),
                                          (''error'', JStr ''Failed to generate speech'')]))
             | Some audio \<Rightarrow>
                if audio = ''''
                then (st, Return (JObj [(''success'', JBool False),
                                        (''error'', JStr ''Failed to generate speech'')]))
                else
                 (let st1 = st\<lparr>active_speech_per_client :=
                                  (active_speech_per_client st)(client_sid \<mapsto> speech_id)\<rparr>;
                      (st2, future) =
                        (if wait_for_completion
                         then (let (s, f) = new_future st1
                               in (s\<lparr>pending_speech_completions :=
                                        (pending_speech_completions s)(speech_id \<mapsto> f)\<rparr>,
                                   Some f))
                         else (st1, None))
                  in case emit_exc of
                       Some e \<Rightarrow> (speak_finally st2 client_sid speech_id, Raise (PyException e))
                     | None \<Rightarrow>
                        (let st3 = emit st2 ''speak_audio''
                                     (JObj [(''speech_id'', JStr speech_id),
                                            (''audio'', JStr audio),
                                            (''message'', JStr message),
                                            (''voice'', JStr voice)]) client_sid
                         in case future of
                              Some f \<Rightarrow> (st3, Await (SpeakWait client_sid speech_id f message))
                            | None \<Rightarrow> (speak_finally st3 client_sid speech_id,
                                       Return (JObj (speech_sent message speech_id)))))))"

text \<open>
  The rest of \<^verbatim>\<open>handle_speak_to_user\<close>. The task resumes when the future has a
  result; until then it stays suspended.
\<close>

definition speak_wait_done :: "state \<Rightarrow> sid \<Rightarrow> token \<Rightarrow> fut_id \<Rightarrow> string
     \<Rightarrow> state \<times> task outcome" where
  "speak_wait_done st client_sid speech_id f message =
     (case futures st f of
        Some (Finished v) \<Rightarrow>
          (speak_finally st client_sid speech_id, Return (JObj (speech_sent message speech_id)))
      | _ \<Rightarrow> (st, Await (SpeakWait client_sid speech_id f message)))"

text \<open>
  The 60 seconds pass: \<^verbatim>\<open>wait_for\<close> returns the result if there is one, else
  cancels the future and raises \<^verbatim>\<open>TimeoutError\<close>, which the handler only logs.
\<close>

definition speak_wait_timeout :: "state \<Rightarrow> sid \<Rightarrow> token \<Rightarrow> fut_id \<Rightarrow> string
     \<Rightarrow> state \<times> task outcome" where
  "speak_wait_timeout st client_sid speech_id f message =
     (case futures st f of
        Some (Finished v) \<Rightarrow> speak_wait_done st client_sid speech_id f message
      | _ \<Rightarrow> (speak_finally (cancel_future st f) client_sid speech_id,
               Return (JObj (speech_sent message speech_id))))"

definition handle_speech_completion :: "state \<Rightarrow> token \<Rightarrow> state \<times> bool" where
  "handle_speech_completion st speech_id =
     (case pending_speech_completions st speech_id of
        Some future \<Rightarrow>
          if \<not> fut_done st future then (set_result st future (JBool True), True)
          else (st, False)
      | None \<Rightarrow> (st, False))"

text \<open>The \<^verbatim>\<open>finally\<close> block of \<^verbatim>\<open>handle_ask_user\<close>.\<close>

definition ask_finally :: "state \<Rightarrow> sid \<Rightarrow> token \<Rightarrow> state" where
  "ask_finally st client_sid request_id =
     (let st1 = (if request_id \<in> dom (pending_user_responses st)
                 then st\<lparr>pending_user_responses :=
                          (pending_user_responses st)(request_id := None)\<rparr>
                 else st)
      in if client_sid \<in> dom (active_speech_per_client st1)
            \<and> active_speech_per_client st1 client_sid = Some request_id
         then st1\<lparr>active_speech_per_client :=
                    (active_speech_per_client st1)(client_sid := None)\<rparr>
         else st1)"

definition handle_ask_user ::
  "state \<Rightarrow> sid \<Rightarrow> dict \<Rightarrow> string option \<Rightarrow> token \<Rightarrow> string option
     \<Rightarrow> state \<times> task outcome" where
  "handle_ask_user st client_sid parameters audio_base64 request_id emit_exc =
     (let question = get_str parameters ''question'' '''';
          voice = get_str parameters ''voice'' ''Joanna'';
          timeout = get_int parameters ''timeout'' 30
      in if question = ''''
         then (st, Return (JObj [(''success'', JBool False),
                                 (''error'', JStr ''Missing 'question' parameter'')]))
         else case active_speech_per_client st client_sid of
           Some active_speech_id \<Rightarrow> (st, Return (JObj (already_in_progress active_speech_id)))
         | None \<Rightarrow>
            (case audio_base64 of
               None \<Rightarrow> (st, Return (JObj [(''success'', JBool False),
                               (''error'', JStr ''Failed to generate speech for question'')]))
             | Some audio \<Rightarrow>
                if audio = ''''
                then (st, Return (JObj [(''success'', JBool False),
                               (''error'', JStr ''Failed to generate speech for question'')]))
                else
                 (let st1 = st\<lparr>active_speech_per_client :=
                                  (active_speech_per_client st)(client_sid \<mapsto> request_id)\<rparr>;
                      (s, future) = new_future st1;
                      st2 = s\<lparr>pending_user_responses :=
                                 (pending_user_responses s)(request_id \<mapsto> future)\<rparr>
                  in case emit_exc of
                       Some e \<Rightarrow> (ask_finally st2 client_sid request_id, Raise (PyException e))
                     | None \<Rightarrow>
                        (emit st2 ''ask_user_question''
                              (JObj [(''request_id'', JStr request_id),
                                     (''audio'', JStr audio),
                                     (''question'', JStr question),
                                     (''voice'', JStr voice)]) client_sid,
                         Await (AskWait client_sid request_id future question timeout)))))"

text \<open>
  The rest of \<^verbatim>\<open>handle_ask_user\<close> once the future has a result. The handler logs
  \<^verbatim>\<open>user_response[:50]\<close> before it returns: an answer that cannot be sliced raises
  there, and the \<^verbatim>\<open>finally\<close> block runs on the way out.
\<close>

definition ask_wait_done :: "state \<Rightarrow> sid \<Rightarrow> token \<Rightarrow> fut_id \<Rightarrow> string \<Rightarrow> int
     \<Rightarrow> state \<times> task outcome" where
  "ask_wait_done st client_sid request_id f question timeout =
     (case futures st f of
        Some (Finished user_response) \<Rightarrow>
          if subscriptable user_response
          then (ask_finally st client_sid request_id,
                Return (JObj [(''success'', JBool True), (''question'', JStr question),
                              (''answer'', user_response), (''request_id'', JStr request_id)]))
          else (ask_finally st client_sid request_id, Raise (PyException ''TypeError''))
      | _ \<Rightarrow> (st, Await (AskWait client_sid request_id f question timeout)))"

definition ask_wait_timeout :: "state \<Rightarrow> sid \<Rightarrow> token \<Rightarrow> fut_id \<Rightarrow> string \<Rightarrow> int
     \<Rightarrow> state \<times> task outcome" where
  "ask_wait_timeout st client_sid request_id f question timeout =
     (case futures st f of
        Some (Finished v) \<Rightarrow> ask_wait_done st client_sid request_id f question timeout
      | _ \<Rightarrow> (ask_finally (cancel_future st f) client_sid request_id,
               Return (JObj [(''success'', JBool False),
                             (''error'', JStr (''User did not respond within ''
                                               @ str_int timeout @ '' seconds'')),
                             (''question'', JStr question)])))"

text \<open>
  \<^verbatim>\<open>handle_user_response\<close> stores the response it is given, of whatever type, as the
  result of the future.
\<close>

definition handle_user_response :: "state \<Rightarrow> token \<Rightarrow> json \<Rightarrow> state \<times> bool" where
  "handle_user_response st request_id response =
     (case pending_user_responses st request_id of
        Some future \<Rightarrow>
          if \<not> fut_done st future then (set_result st future response, True)
          else (st, False)
      | None \<Rightarrow> (st, False))"

definition BUILTIN_ACTIONS :: "string list" where
  "BUILTIN_ACTIONS = [''speak_to_user'', ''ask_user'']"

text \<open>
  The envelope that \<^verbatim>\<open>handle_builtin_action\<close> builds from the handler's result,
  once the handler has returned.
\<close>

definition builtin_envelope :: "task outcome \<Rightarrow> task outcome" where
  "builtin_envelope r =
     (case r of
        Return (JObj result) \<Rightarrow>
          Return (JObj [(''success'', dict_get result ''success'' (JBool False)),
                        (''data'', JObj result)])
      | other \<Rightarrow> other)"

definition handle_builtin_action ::
  "string \<Rightarrow> state \<Rightarrow> sid \<Rightarrow> dict \<Rightarrow> string option \<Rightarrow> token \<Rightarrow> string option
     \<Rightarrow> (state \<times> task outcome) option" where
  "handle_builtin_action action st client_sid parameters audio_base64 uuid emit_exc =
     (if action \<in> set BUILTIN_ACTIONS
      then (let (st', r) =
                  (if action = ''speak_to_user''
                   then handle_speak_to_user st client_sid parameters audio_base64 uuid emit_exc
                   else handle_ask_user st client_sid parameters audio_base64 uuid emit_exc)
            in Some (st', builtin_envelope r))
      else None)"

subsection \<open>session\_manager.py\<close>

definition create_session :: "state \<Rightarrow> sid \<Rightarrow> string \<Rightarrow> timestamp \<Rightarrow> state \<times> string" where
  "create_session st socket_id fresh_session_id now =
     (st\<lparr>sessions := (sessions st)(socket_id \<mapsto>
            \<lparr>runtime_session_id = fresh_session_id, created_at = now, last_activity = now\<rparr>)\<rparr>,
      fresh_session_id)"

definition get_session :: "state \<Rightarrow> sid \<Rightarrow> timestamp \<Rightarrow> state \<times> string option" where
  "get_session st socket_id now =
     (case sessions st socket_id of
        Some session \<Rightarrow>
          (st\<lparr>sessions := (sessions st)(socket_id \<mapsto> session\<lparr>last_activity := now\<rparr>)\<rparr>,
           Some (runtime_session_id session))
      | None \<Rightarrow> (st, None))"

definition get_or_create_session :: "state \<Rightarrow> sid \<Rightarrow> string \<Rightarrow> timestamp \<Rightarrow> state \<times> string" where
  "get_or_create_session st socket_id fresh_session_id now =
     (case get_session st socket_id now of
        (st', Some session_id) \<Rightarrow>
          if session_id \<noteq> '''' then (st', session_id)
          else create_session st' socket_id fresh_session_id now
      | (st', None) \<Rightarrow> create_session st' socket_id fresh_session_id now)"

definition remove_session :: "state \<Rightarrow> sid \<Rightarrow> state" where
  "remove_session st socket_id =
     (if socket_id \<in> dom (sessions st)
      then st\<lparr>sessions := (sessions st)(socket_id := None)\<rparr>
      else st)"

subsection \<open>main.py: the Socket.IO handlers\<close>

definition connect :: "state \<Rightarrow> sid \<Rightarrow> state" where
  "connect st sid =
     emit (st\<lparr>connected_clients := insert sid (connected_clients st)\<rparr>)
          ''response'' (JObj [(''data'', JStr ''Connected successfully!'')]) sid"

text \<open>
  \<^verbatim>\<open>disconnect\<close> up to its \<^verbatim>\<open>run_in_executor\<close>, which it reaches when the peer
  has a runtime session, \<^verbatim>\<open>AGENT_RUNTIME_ARN\<close> is set and the client is created
  (\<open>client_ok\<close>); otherwise it runs to its end.
\<close>

definition disconnect :: "state \<Rightarrow> sid \<Rightarrow> timestamp \<Rightarrow> bool \<Rightarrow> bool \<Rightarrow> state \<times> task outcome" where
  "disconnect st sid now arn_set client_ok =
     (let st1 = st\<lparr>connected_clients := connected_clients st - {sid}\<rparr>;
          st2 = (if sid \<in> dom (agent_processing_lock st1)
                 then st1\<lparr>agent_processing_lock := (agent_processing_lock st1)(sid := None)\<rparr>
                 else st1);
          (st3, runtime_session_id) = get_session st2 sid now
      in if runtime_session_id \<notin> {None, Some ''''} \<and> arn_set \<and> client_ok
         then (st3, Await (DisconnectStop sid))
         else (remove_session st3 sid, Return JNull))"

text \<open>
  The rest of \<^verbatim>\<open>disconnect\<close>: whatever the remote call did, the handler catches it
  and removes the session.
\<close>

definition disconnect_stopped :: "state \<Rightarrow> sid \<Rightarrow> state \<times> task outcome" where
  "disconnect_stopped st sid = (remove_session st sid, Return JNull)"

definition speech_completed :: "state \<Rightarrow> sid \<Rightarrow> dict \<Rightarrow> state" where
  "speech_completed st sid data =
     (let speech_id = get_str data ''speech_id'' ''''
      in if speech_id \<noteq> '''' then fst (handle_speech_completion st speech_id) else st)"

text \<open>
  \<^verbatim>\<open>user_response\<close> reads both values raw. It logs \<^verbatim>\<open>response[:50]\<close> first,
  which raises for a value that cannot be sliced; then it tests the truth values of
  both. A request id that is a string is looked up by \<^verbatim>\<open>handle_user_response\<close>;
  one that is a list or an object cannot be a key and the lookup raises; any other
  (a number, \<^verbatim>\<open>True\<close>) is no key of the table, whose keys are strings.
\<close>

definition user_response :: "state \<Rightarrow> sid \<Rightarrow> dict \<Rightarrow> state \<times> task outcome" where
  "user_response st sid data =
     (let request_id = dict_get data ''request_id'' JNull;
          response = dict_get data ''response'' (JStr '''')
      in if \<not> subscriptable response then (st, Raise (PyException ''TypeError''))
         else if truthy request_id \<and> truthy response
         then (case request_id of
                 JStr rid \<Rightarrow> (fst (handle_user_response st rid response), Return JNull)
               | other \<Rightarrow>
                   if hashable other then (st, Return JNull)
                   else (st, Raise (PyException ''TypeError'')))
         else (st, Return JNull))"

text \<open>The \<^verbatim>\<open>finally\<close> and \<^verbatim>\<open>except\<close> blocks of \<^verbatim>\<open>user_prompt\<close>.\<close>

definition turn_finally :: "state \<Rightarrow> sid \<Rightarrow> state" where
  "turn_finally st sid = st\<lparr>agent_processing_lock := (agent_processing_lock st)(sid \<mapsto> False)\<rparr>"

definition turn_except :: "state \<Rightarrow> sid \<Rightarrow> string \<Rightarrow> state \<times> task outcome" where
  "turn_except st sid e =
     (turn_finally
        (emit st ''agent_response''
              (JObj [(''success'', JBool False), (''error'', JStr (''Unexpected error: '' @ e))])
              sid) sid,
      Return JNull)"

text \<open>
  \<^verbatim>\<open>user_prompt\<close> up to its first \<^verbatim>\<open>run_in_executor\<close>.
  \<open>agent_runtime_arn\<close> is the environment variable, \<open>client_exc\<close> the failure of
  \<^verbatim>\<open>boto3.client\<close> if it fails.
\<close>

definition user_prompt ::
  "state \<Rightarrow> sid \<Rightarrow> dict \<Rightarrow> string \<Rightarrow> timestamp \<Rightarrow> string option \<Rightarrow> string option
     \<Rightarrow> state \<times> task outcome" where
  "user_prompt st sid data fresh_session_id now agent_runtime_arn client_exc =
     (let prompt = get_str data ''prompt'' ''''
      in if prompt = '''' then (st, Return JNull)
         else if (case agent_processing_lock st sid of Some b \<Rightarrow> b | None \<Rightarrow> False)
         then (emit st ''agent_busy''
                 (JObj [(''message'', JStr ''Agent is currently processing. Please wait...'')])
                 sid,
               Return JNull)
         else
          (let st1 = st\<lparr>agent_processing_lock := (agent_processing_lock st)(sid \<mapsto> True)\<rparr>;
               (st2, runtime_session_id) = get_or_create_session st1 sid fresh_session_id now
           in if agent_runtime_arn \<in> {None, Some ''''}
              then turn_except st2 sid ''AGENT_RUNTIME_ARN not configured in .env file''
              else case client_exc of
                     Some e \<Rightarrow> turn_except st2 sid e
                   | None \<Rightarrow> (st2, Await (TurnInvoke sid))))"

text \<open>
  \<^verbatim>\<open>invoke_agent_runtime\<close> has come back: with an exception (\<open>Some e\<close>), or with a
  response whose body the handler reads in the executor.
\<close>

definition turn_invoked :: "state \<Rightarrow> sid \<Rightarrow> string option \<Rightarrow> state \<times> task outcome" where
  "turn_invoked st sid invoke_exc =
     (case invoke_exc of
        Some e \<Rightarrow> turn_except st sid e
      | None \<Rightarrow> (st, Await (TurnRead sid)))"

text \<open>
  The body has been read and parsed (\<open>Inr response_data\<close>), or reading or
  \<^verbatim>\<open>json.loads\<close> raised (\<open>Inl e\<close>).
\<close>

definition turn_read :: "state \<Rightarrow> sid \<Rightarrow> string + json \<Rightarrow> timestamp \<Rightarrow> state \<times> task outcome" where
  "turn_read st sid body now =
     (case body of
        Inl e \<Rightarrow> turn_except st sid e
      | Inr response_data \<Rightarrow>
          (let st1 = emit st ''agent_response''
                       (JObj [(''success'', JBool True), (''response'', response_data)]) sid;
               st2 = emit st1 ''agent_turn_complete'' (JObj [(''timestamp'', JNum now)]) sid
           in (turn_finally st2 sid, Return JNull)))"

definition frontend_tool_response :: "state \<Rightarrow> sid \<Rightarrow> dict \<Rightarrow> state" where
  "frontend_tool_response st sid data =
     (case get_token data ''toolCallId'' of
        None \<Rightarrow> st
      | Some tool_call_id \<Rightarrow>
         (case pending_tool_calls st tool_call_id of
            None \<Rightarrow> st
          | Some future \<Rightarrow>
             (let st1 = (if \<not> fut_done st future then set_result st future (JObj data) else st)
              in st1\<lparr>pending_tool_calls := (pending_tool_calls st1)(tool_call_id := None)\<rparr>)))"

subsection \<open>main.py: the action endpoint\<close>

text \<open>\<^verbatim>\<open>if tool_call_id in pending_tool_calls: del pending_tool_calls[tool_call_id]\<close>\<close>

definition drop_tool_call :: "state \<Rightarrow> token \<Rightarrow> state" where
  "drop_tool_call st tool_call_id =
     (if tool_call_id \<in> dom (pending_tool_calls st)
      then st\<lparr>pending_tool_calls := (pending_tool_calls st)(tool_call_id := None)\<rparr>
      else st)"

text \<open>
  \<^verbatim>\<open>frontend_action\<close> up to its return, its raise or its suspension.
  \<open>client_sid\<close> is the element that \<^verbatim>\<open>next(iter(connected_clients))\<close> yields,
  \<open>uuid\<close> the one \<^verbatim>\<open>uuid4\<close> that the call draws.
\<close>

definition frontend_action ::
  "state \<Rightarrow> dict \<Rightarrow> sid \<Rightarrow> string option \<Rightarrow> token \<Rightarrow> string option \<Rightarrow> state \<times> task outcome" where
  "frontend_action st payload client_sid audio_base64 uuid emit_exc =
     (let action = get_str payload ''action'' '''';
          parameters = get_obj payload ''parameters'' []
      in if action = ''''
         then (st, Raise (HTTPException 400 (Text ''Missing 'action' in payload'')))
         else if connected_clients st = {}
         then (st, Raise (HTTPException 503 (Text ''No frontend client connected'')))
         else case handle_builtin_action action st client_sid parameters audio_base64 uuid emit_exc of
           Some builtin_result \<Rightarrow> builtin_result
         | None \<Rightarrow>
            (let tool_call_id = uuid;
                 (st1, future) = new_future st;
                 st2 = st1\<lparr>pending_tool_calls := (pending_tool_calls st1)(tool_call_id \<mapsto> future)\<rparr>
             in case emit_exc of
                  Some e \<Rightarrow> (drop_tool_call st2 tool_call_id, Raise (HTTPException 500 (Text e)))
                | None \<Rightarrow>
                   (emit st2 ''frontend_tool''
                         (JObj [(''toolCallId'', JStr tool_call_id),
                                (''action'', JStr action),
                                (''id'', JStr ''todo-list''),
                                (''args'', JList (if parameters \<noteq> [] then [JObj parameters] else []))])
                         client_sid,
                    Await (ToolWait tool_call_id future))))"

text \<open>
  The rest of \<^verbatim>\<open>frontend_action\<close> once the future has a result. The result is the
  dictionary that \<^verbatim>\<open>frontend_tool_response\<close> stored; anything else has no
  \<^verbatim>\<open>get\<close>, and the outer handler turns the error into a 500.
\<close>

definition tool_wait_done :: "state \<Rightarrow> token \<Rightarrow> fut_id \<Rightarrow> state \<times> task outcome" where
  "tool_wait_done st tool_call_id f =
     (case futures st f of
        Some (Finished (JObj response)) \<Rightarrow>
          (st, Return (JObj [(''success'', dict_get response ''success'' (JBool False)),
                             (''data'', dict_get response ''result'' (JObj []))]))
      | Some (Finished v) \<Rightarrow>
          (drop_tool_call st tool_call_id,
           Raise (HTTPException 500 (StrOf (PyException ''AttributeError''))))
      | _ \<Rightarrow> (st, Await (ToolWait tool_call_id f)))"

text \<open>
  The 30 seconds pass. The \<^verbatim>\<open>HTTPException(504)\<close> of the inner handler is raised
  inside the outer \<^verbatim>\<open>try\<close>, whose \<^verbatim>\<open>except Exception\<close> catches it.
\<close>

definition tool_wait_timeout :: "state \<Rightarrow> token \<Rightarrow> fut_id \<Rightarrow> state \<times> task outcome" where
  "tool_wait_timeout st tool_call_id f =
     (case futures st f of
        Some (Finished v) \<Rightarrow> tool_wait_done st tool_call_id f
      | _ \<Rightarrow>
         (let st1 = drop_tool_call (cancel_future st f) tool_call_id;
              e = HTTPException 504 (Text ''Frontend action timed out'')
          in (drop_tool_call st1 tool_call_id, Raise (HTTPException 500 (StrOf e)))))"

subsection \<open>The event loop\<close>

text \<open>
  The running server is the module-level state and the list of suspended tasks. An
  event is the arrival of a Socket.IO event or of an HTTP request, together with what
  the handler draws from outside, or the waking of a suspended task: its future has a
  result (\<open>Ready\<close>), its \<^verbatim>\<open>wait_for\<close> timeout fires (\<open>TimedOut\<close>), or
  its executor call comes back.
\<close>

datatype wake =
    Ready
  | TimedOut
  | Invoked "string option"
  | ReadBody "string + json" timestamp
  | Stopped

datatype event =
    Connect sid
  | Disconnect sid timestamp bool bool
  | SpeechCompleted sid dict
  | UserResponse sid dict
  | UserPrompt sid dict string timestamp "string option" "string option"
  | FrontendToolResponse sid dict
  | FrontendAction dict sid "string option" token "string option"
  | Wake nat wake

definition resume :: "state \<Rightarrow> task \<Rightarrow> wake \<Rightarrow> state \<times> task outcome" where
  "resume st k w =
     (case k of
        SpeakWait c i f m \<Rightarrow>
          (case w of
             Ready \<Rightarrow> (let (st', r) = speak_wait_done st c i f m in (st', builtin_envelope r))
           | TimedOut \<Rightarrow> (let (st', r) = speak_wait_timeout st c i f m in (st', builtin_envelope r))
           | _ \<Rightarrow> (st, Await k))
      | AskWait c i f q n \<Rightarrow>
          (case w of
             Ready \<Rightarrow> (let (st', r) = ask_wait_done st c i f q n in (st', builtin_envelope r))
           | TimedOut \<Rightarrow> (let (st', r) = ask_wait_timeout st c i f q n in (st', builtin_envelope r))
           | _ \<Rightarrow> (st, Await k))
      | ToolWait t f \<Rightarrow>
          (case w of
             Ready \<Rightarrow> tool_wait_done st t f
           | TimedOut \<Rightarrow> tool_wait_timeout st t f
           | _ \<Rightarrow> (st, Await k))
      | TurnInvoke s \<Rightarrow> (case w of Invoked e \<Rightarrow> turn_invoked st s e | _ \<Rightarrow> (st, Await k))
      | TurnRead s \<Rightarrow> (case w of ReadBody b now \<Rightarrow> turn_read st s b now | _ \<Rightarrow> (st, Await k))
      | DisconnectStop s \<Rightarrow> (case w of Stopped \<Rightarrow> disconnect_stopped st s | _ \<Rightarrow> (st, Await k)))"

definition spawn :: "task list \<Rightarrow> state \<times> task outcome \<Rightarrow> state \<times> task list" where
  "spawn ts r = (case r of (st, Await k) \<Rightarrow> (st, ts @ [k]) | (st, _) \<Rightarrow> (st, ts))"

text \<open>
  A wake that does not apply to the task (its future has no result yet, or it waits
  for something else) leaves the server as it is. A request to the action endpoint is
  served with a client that is connected, when there is one.
\<close>

fun fire :: "state \<times> task list \<Rightarrow> event \<Rightarrow> state \<times> task list" where
  "fire (st, ts) (Connect sid) = (connect st sid, ts)"
| "fire (st, ts) (Disconnect sid now arn_set client_ok) =
     spawn ts (disconnect st sid now arn_set client_ok)"
| "fire (st, ts) (SpeechCompleted sid data) = (speech_completed st sid data, ts)"
| "fire (st, ts) (UserResponse sid data) = spawn ts (user_response st sid data)"
| "fire (st, ts) (UserPrompt sid data fresh now arn client_exc) =
     spawn ts (user_prompt st sid data fresh now arn client_exc)"
| "fire (st, ts) (FrontendToolResponse sid data) = (frontend_tool_response st sid data, ts)"
| "fire (st, ts) (FrontendAction payload client_sid audio uuid emit_exc) =
     (if connected_clients st \<noteq> {} \<and> client_sid \<notin> connected_clients st then (st, ts)
      else spawn ts (frontend_action st payload client_sid audio uuid emit_exc))"
| "fire (st, ts) (Wake i w) =
     (if i < length ts
      then (let r = resume st (ts ! i) w
            in if snd r = Await (ts ! i) then (st, ts)
               else spawn (take i ts @ drop (Suc i) ts) r)
      else (st, ts))"

definition run :: "event list \<Rightarrow> state \<times> task list" where
  "run es = foldl fire (init, []) es"

text \<open>
  The operations that hold the busy guard: a suspended \<^verbatim>\<open>speak_to_user\<close> or
  \<^verbatim>\<open>ask_user\<close>, with its peer and its operation id.
\<close>

fun holder :: "task \<Rightarrow> (sid \<times> token) option" where
  "holder (SpeakWait c i f m) = Some (c, i)"
| "holder (AskWait c i f q n) = Some (c, i)"
| "holder k = None"

definition guarded_ops :: "task list \<Rightarrow> (sid \<times> token) list" where
  "guarded_ops ts = List.map_filter holder ts"

definition active_ops :: "task list \<Rightarrow> sid \<Rightarrow> (sid \<times> token) list" where
  "active_ops ts peer = filter (\<lambda>g. fst g = peer) (guarded_ops ts)"

definition guard_inv :: "state \<times> task list \<Rightarrow> bool" where
  "guard_inv s =
     (distinct (map fst (guarded_ops (snd s)))
      \<and> (\<forall>g \<in> set (guarded_ops (snd s)). active_speech_per_client (fst s) (fst g) = Some (snd g)))"

text \<open>
  What a segment may do to the busy guard: it either suspends as a new holder, having
  found the guard of its peer free and set it to its own id, or it leaves the guard
  map as it found it and suspends, if at all, as something that holds no guard.
\<close>

definition step_ok :: "state \<Rightarrow> state \<times> task outcome \<Rightarrow> bool" where
  "step_ok st r =
     ((\<exists>k c i. snd r = Await k \<and> holder k = Some (c, i) \<and> active_speech_per_client st c = None
          \<and> active_speech_per_client (fst r) = (active_speech_per_client st)(c \<mapsto> i))
      \<or> ((\<forall>k. snd r = Await k \<longrightarrow> holder k = None)
          \<and> active_speech_per_client (fst r) = active_speech_per_client st))"

text \<open>
  What waking a task may do to it: the task stays suspended as it was, or it ends (or
  goes on as something that holds no guard) and the guard map loses at most the entry
  that names this task's own operation.
\<close>

definition wake_ok :: "state \<Rightarrow> task \<Rightarrow> state \<times> task outcome \<Rightarrow> bool" where
  "wake_ok st k r =
     (snd r = Await k
      \<or> ((\<forall>k'. snd r = Await k' \<longrightarrow> holder k' = None)
          \<and> active_speech_per_client (fst r) =
               (case holder k of
                  None \<Rightarrow> active_speech_per_client st
                | Some (c, i) \<Rightarrow>
                    if active_speech_per_client st c = Some i
                    then (active_speech_per_client st)(c := None)
                    else active_speech_per_client st)))"


subsection \<open>Sample runs\<close>

definition speak_payload :: dict where
  "speak_payload =
     [(''action'', JStr ''speak_to_user''), (''parameters'', JObj [(''message'', JStr ''hi'')])]"

definition ask_payload :: dict where
  "ask_payload =
     [(''action'', JStr ''ask_user''), (''parameters'', JObj [(''question'', JStr ''ok?'')])]"

definition create_task_payload :: dict where
  "create_task_payload =
     [(''action'', JStr ''create_task''), (''parameters'', JObj [(''title'', JStr ''t'')])]"

text \<open>A peer connects and the agent starts speaking to it.\<close>

definition speaking :: "event list" where
  "speaking = [Connect ''p1'', FrontendAction speak_payload ''p1'' (Some ''QUJD'') ''s1'' None]"

text \<open>A peer connects and the agent asks it a question.\<close>

definition asking :: "event list" where
  "asking = [Connect ''p1'', FrontendAction ask_payload ''p1'' (Some ''QUJD'') ''r1'' None]"

text \<open>A peer connects and the agent dispatches a generic action to it.\<close>

definition dispatching :: "event list" where
  "dispatching = [Connect ''p1'', FrontendAction create_task_payload ''p1'' None ''t1'' None]"

text \<open>The server after \<open>speaking\<close>.\<close>

definition speaking_state :: state where
  "speaking_state =
     \<lparr> pending_tool_calls = Map.empty, connected_clients = {''p1''},
       agent_processing_lock = Map.empty,
       pending_speech_completions = [''s1'' \<mapsto> 0],
       active_speech_per_client = [''p1'' \<mapsto> ''s1''],
       pending_user_responses = Map.empty,
       sessions = Map.empty, futures = [0 \<mapsto> Pending], next_future = 1,
       outbox = [(''response'', JObj [(''data'', JStr ''Connected successfully!'')], ''p1''),
                 (''speak_audio'',
                  JObj [(''speech_id'', JStr ''s1''), (''audio'', JStr ''QUJD''),
                        (''message'', JStr ''hi''), (''voice'', JStr ''Joanna'')], ''p1'')] \<rparr>"

text \<open>The server after \<open>asking\<close> and after \<open>dispatching\<close>.\<close>

definition asking_state :: state where
  "asking_state =
     \<lparr> pending_tool_calls = Map.empty, connected_clients = {''p1''},
       agent_processing_lock = Map.empty,
       pending_speech_completions = Map.empty,
       active_speech_per_client = [''p1'' \<mapsto> ''r1''],
       pending_user_responses = [''r1'' \<mapsto> 0],
       sessions = Map.empty, futures = [0 \<mapsto> Pending], next_future = 1,
       outbox = [(''response'', JObj [(''data'', JStr ''Connected successfully!'')], ''p1''),
                 (''ask_user_question'',
                  JObj [(''request_id'', JStr ''r1''), (''audio'', JStr ''QUJD''),
                        (''question'', JStr ''ok?''), (''voice'', JStr ''Joanna'')], ''p1'')] \<rparr>"

definition dispatching_state :: state where
  "dispatching_state =
     \<lparr> pending_tool_calls = [''t1'' \<mapsto> 0], connected_clients = {''p1''},
       agent_processing_lock = Map.empty,
       pending_speech_completions = Map.empty,
       active_speech_per_client = Map.empty,
       pending_user_responses = Map.empty,
       sessions = Map.empty, futures = [0 \<mapsto> Pending], next_future = 1,
       outbox = [(''response'', JObj [(''data'', JStr ''Connected successfully!'')], ''p1''),
                 (''frontend_tool'',
                  JObj [(''toolCallId'', JStr ''t1''), (''action'', JStr ''create_task''),
                        (''id'', JStr ''todo-list''),
                        (''args'', JList [JObj [(''title'', JStr ''t'')]])], ''p1'')] \<rparr>"

text \<open>The peer's reply to the dispatched action.\<close>

definition reply :: dict where
  "reply = [(''toolCallId'', JStr ''t1''), (''success'', JBool True),
            (''result'', JObj [(''id'', JNum 7)])]"

text \<open>The server after a peer has connected and its first prompt has started a turn.\<close>

definition turning_state :: state where
  "turning_state =
     \<lparr> pending_tool_calls = Map.empty, connected_clients = {''p1''},
       agent_processing_lock = [''p1'' \<mapsto> True],
       pending_speech_completions = Map.empty,
       active_speech_per_client = Map.empty,
       pending_user_responses = Map.empty,
       sessions = [''p1'' \<mapsto> \<lparr>runtime_session_id = ''sess1'', created_at = 1, last_activity = 1\<rparr>],
       futures = Map.empty, next_future = 0,
       outbox = [(''response'', JObj [(''data'', JStr ''Connected successfully!'')], ''p1'')] \<rparr>"

text \<open>The peer disconnects while the agent is speaking to it.\<close>

definition disconnecting :: "event list" where
  "disconnecting = speaking @ [Disconnect ''p1'' 5 True True]"

text \<open>The agent dispatches a second action and draws the token of the first again.\<close>

definition dispatching_twice :: "event list" where
  "dispatching_twice =
     dispatching @ [FrontendAction create_task_payload ''p1'' None ''t1'' None]"

section \<open>Properties\<close>

subsection \<open>The busy guard along a run\<close>

lemma speak_finally_active:
  "active_speech_per_client (speak_finally st c i) =
     (if active_speech_per_client st c = Some i then (active_speech_per_client st)(c := None)
      else active_speech_per_client st)"
  by (auto simp: speak_finally_def Let_def)

lemma ask_finally_active:
  "active_speech_per_client (ask_finally st c i) =
     (if active_speech_per_client st c = Some i then (active_speech_per_client st)(c := None)
      else active_speech_per_client st)"
  by (auto simp: ask_finally_def Let_def)

lemma speak_start_cases:
  assumes "handle_speak_to_user st c p a i e = (st', r)"
  shows "(\<exists>f m. r = Await (SpeakWait c i f m) \<and> active_speech_per_client st c = None
            \<and> active_speech_per_client st' = (active_speech_per_client st)(c \<mapsto> i))
         \<or> ((\<forall>k. r \<noteq> Await k) \<and> active_speech_per_client st' = active_speech_per_client st)"
  using assms
  by (auto simp: handle_speak_to_user_def Let_def speak_finally_active new_future_def emit_def
           split: option.splits if_splits prod.splits)

lemma ask_start_cases:
  assumes "handle_ask_user st c p a i e = (st', r)"
  shows "(\<exists>f q n. r = Await (AskWait c i f q n) \<and> active_speech_per_client st c = None
            \<and> active_speech_per_client st' = (active_speech_per_client st)(c \<mapsto> i))
         \<or> ((\<forall>k. r \<noteq> Await k) \<and> active_speech_per_client st' = active_speech_per_client st)"
  using assms
  by (auto simp: handle_ask_user_def Let_def ask_finally_active new_future_def emit_def
           split: option.splits if_splits prod.splits)

lemma guarded_ops_append: "guarded_ops (xs @ ys) = guarded_ops xs @ guarded_ops ys"
  by (simp add: guarded_ops_def List.map_filter_def)

lemma guarded_ops_single: "guarded_ops [k] = (case holder k of None \<Rightarrow> [] | Some g \<Rightarrow> [g])"
  by (simp add: guarded_ops_def map_filter_simps split: option.splits)

lemma guarded_ops_Cons:
  "guarded_ops (k # ks) = (case holder k of None \<Rightarrow> [] | Some g \<Rightarrow> [g]) @ guarded_ops ks"
  by (simp add: guarded_ops_def map_filter_simps split: option.splits)

lemma spawn_guard_inv:
  assumes "guard_inv (st, ts)" and "step_ok st r"
  shows "guard_inv (spawn ts r)"
proof -
  obtain st' o' where r: "r = (st', o')" by (cases r)
  from assms(2) consider
    (acq) k c i where "o' = Await k" "holder k = Some (c, i)" "active_speech_per_client st c = None"
        "active_speech_per_client st' = (active_speech_per_client st)(c \<mapsto> i)"
    | (quiet) "\<forall>k. o' = Await k \<longrightarrow> holder k = None"
        "active_speech_per_client st' = active_speech_per_client st"
    unfolding step_ok_def r by auto
  then show ?thesis
  proof cases
    case acq
    have notin: "c \<notin> fst ` set (guarded_ops ts)"
      using assms(1) acq(3) by (auto simp: guard_inv_def)
    show ?thesis
      using assms(1) acq notin
      by (auto simp: r spawn_def guard_inv_def guarded_ops_append guarded_ops_single)
  next
    case quiet
    show ?thesis
      using assms(1) quiet
      by (cases o') (auto simp: r spawn_def guard_inv_def guarded_ops_append guarded_ops_single)
  qed
qed

lemma step_ok_disconnect: "step_ok st (disconnect st sid now a b)"
  by (auto simp: step_ok_def disconnect_def Let_def get_session_def remove_session_def
           split: option.splits prod.splits)

lemma turn_except_active:
  "active_speech_per_client (fst (turn_except st sid e)) = active_speech_per_client st"
  by (simp add: turn_except_def turn_finally_def emit_def)

lemma turn_except_snd: "snd (turn_except st sid e) = Return JNull"
  by (simp add: turn_except_def)

lemma get_or_create_session_active:
  "get_or_create_session st sid f now = (st', x)
     \<Longrightarrow> active_speech_per_client st' = active_speech_per_client st"
  by (auto simp: get_or_create_session_def get_session_def create_session_def
           split: option.splits prod.splits if_splits)

lemma step_ok_user_prompt: "step_ok st (user_prompt st sid d f now arn ce)"
  unfolding step_ok_def
  apply (rule disjI2)
  apply (auto simp: user_prompt_def Let_def emit_def turn_except_active turn_except_snd
           split: option.splits prod.splits dest: get_or_create_session_active)
  done

lemma builtin_envelope_Await: "builtin_envelope r = Await k \<longleftrightarrow> r = Await k"
  by (auto simp: builtin_envelope_def split: outcome.splits json.splits)

lemma step_ok_speak: "step_ok st (handle_speak_to_user st c p a i e)"
proof -
  obtain st' r where eq: "handle_speak_to_user st c p a i e = (st', r)"
    by (cases "handle_speak_to_user st c p a i e")
  from speak_start_cases [OF eq] show ?thesis
    unfolding step_ok_def eq by auto
qed

lemma step_ok_ask: "step_ok st (handle_ask_user st c p a i e)"
proof -
  obtain st' r where eq: "handle_ask_user st c p a i e = (st', r)"
    by (cases "handle_ask_user st c p a i e")
  from ask_start_cases [OF eq] show ?thesis
    unfolding step_ok_def eq by auto
qed

lemma step_ok_envelope: "step_ok st (st', r) \<Longrightarrow> step_ok st (st', builtin_envelope r)"
  by (simp add: step_ok_def builtin_envelope_Await)

lemma step_ok_builtin:
  "handle_builtin_action action st c p a i e = Some r \<Longrightarrow> step_ok st r"
  using step_ok_speak [of st c p a i e] step_ok_ask [of st c p a i e]
  by (auto simp: handle_builtin_action_def split: if_splits prod.splits intro: step_ok_envelope)

lemma step_ok_frontend_action: "step_ok st (frontend_action st payload c a i e)"
proof (cases "handle_builtin_action (get_str payload ''action'' '''') st c
                (get_obj payload ''parameters'' []) a i e")
  case None
  then show ?thesis
    by (auto simp: frontend_action_def step_ok_def Let_def new_future_def emit_def
                   drop_tool_call_def split: option.splits)
next
  case (Some r)
  then show ?thesis
    using step_ok_builtin [OF Some]
    by (auto simp: frontend_action_def Let_def step_ok_def)
qed

lemma wake_ok_resume: "wake_ok st k (resume st k w)"
proof (cases k)
  case (SpeakWait c i f m)
  then show ?thesis
    by (cases w)
       (auto simp: wake_ok_def resume_def speak_wait_done_def speak_wait_timeout_def
                   builtin_envelope_def speak_finally_active cancel_future_def
             split: option.splits fut.splits)
next
  case (AskWait c i f q n)
  then show ?thesis
    by (cases w)
       (auto simp: wake_ok_def resume_def ask_wait_done_def ask_wait_timeout_def
                   builtin_envelope_def ask_finally_active cancel_future_def
             split: option.splits fut.splits)
next
  case (ToolWait t f)
  then show ?thesis
    by (cases w)
       (auto simp: wake_ok_def resume_def tool_wait_done_def tool_wait_timeout_def
                   drop_tool_call_def cancel_future_def Let_def
             split: option.splits fut.splits json.splits)
next
  case (TurnInvoke s)
  then show ?thesis
    by (cases w)
       (auto simp: wake_ok_def resume_def turn_invoked_def turn_except_active turn_except_snd
             split: option.splits)
next
  case (TurnRead s)
  then show ?thesis
    by (cases w)
       (auto simp: wake_ok_def resume_def turn_read_def turn_except_active turn_except_snd
                   turn_finally_def emit_def Let_def
             split: sum.splits)
next
  case (DisconnectStop s)
  then show ?thesis
    by (cases w)
       (auto simp: wake_ok_def resume_def disconnect_stopped_def remove_session_def)
qed

lemma wake_guard_inv:
  assumes inv: "guard_inv (st, ts)" and i: "i < length ts"
      and ok: "wake_ok st (ts ! i) r" and ne: "snd r \<noteq> Await (ts ! i)"
  shows "guard_inv (spawn (take i ts @ drop (Suc i) ts) r)"
proof -
  obtain st' o' where r: "r = (st', o')" by (cases r)
  let ?k = "ts ! i"
  have ts: "ts = take i ts @ ?k # drop (Suc i) ts"
    using i by (simp add: id_take_nth_drop)
  have g: "guarded_ops ts = guarded_ops (take i ts)
             @ (case holder ?k of None \<Rightarrow> [] | Some g \<Rightarrow> [g]) @ guarded_ops (drop (Suc i) ts)"
    by (subst ts) (simp add: guarded_ops_append guarded_ops_Cons)
  from ok ne have quiet: "\<forall>k'. o' = Await k' \<longrightarrow> holder k' = None"
    and act: "active_speech_per_client st' =
               (case holder ?k of
                  None \<Rightarrow> active_speech_per_client st
                | Some (c, a) \<Rightarrow>
                    if active_speech_per_client st c = Some a
                    then (active_speech_per_client st)(c := None)
                    else active_speech_per_client st)"
    unfolding wake_ok_def r by auto
  have sp: "guarded_ops (snd (spawn (take i ts @ drop (Suc i) ts) r))
              = guarded_ops (take i ts) @ guarded_ops (drop (Suc i) ts)"
    using quiet by (cases o') (auto simp: r spawn_def guarded_ops_append guarded_ops_single)
  have fs: "fst (spawn (take i ts @ drop (Suc i) ts) r) = st'"
    by (cases o') (auto simp: r spawn_def)
  show ?thesis
  proof (cases "holder ?k")
    case None
    then show ?thesis
      using inv act g unfolding guard_inv_def sp fs by auto
  next
    case (Some ca)
    obtain c a where ca: "ca = (c, a)" by (cases ca)
    have held: "active_speech_per_client st c = Some a"
      using inv g Some ca unfolding guard_inv_def by auto
    have others: "c \<notin> fst ` set (guarded_ops (take i ts) @ guarded_ops (drop (Suc i) ts))"
      using inv g Some ca unfolding guard_inv_def by auto
    have act': "active_speech_per_client st' = (active_speech_per_client st)(c := None)"
      using act Some ca held by simp
    show ?thesis
      using inv g Some ca others unfolding guard_inv_def sp fs act'
      by (auto simp: image_iff)
  qed
qed

lemma quiet_guard_inv:
  "guard_inv (st, ts) \<Longrightarrow> active_speech_per_client st' = active_speech_per_client st
     \<Longrightarrow> guard_inv (st', ts)"
  by (simp add: guard_inv_def)

lemma connect_active: "active_speech_per_client (connect st sid) = active_speech_per_client st"
  by (simp add: connect_def emit_def)

lemma speech_completed_active:
  "active_speech_per_client (speech_completed st sid d) = active_speech_per_client st"
  by (auto simp: speech_completed_def handle_speech_completion_def set_result_def Let_def
           split: option.splits)

lemma step_ok_user_response: "step_ok st (user_response st sid d)"
  by (auto simp: step_ok_def user_response_def handle_user_response_def set_result_def Let_def
           split: option.splits json.splits)

lemma frontend_tool_response_active:
  "active_speech_per_client (frontend_tool_response st sid d) = active_speech_per_client st"
  by (auto simp: frontend_tool_response_def set_result_def Let_def split: option.splits)

lemma guard_inv_init: "guard_inv (init, [])"
  by (simp add: guard_inv_def guarded_ops_def List.map_filter_def)

lemma fire_guard_inv:
  assumes inv: "guard_inv s"
  shows "guard_inv (fire s ev)"
proof -
  obtain st ts where s: "s = (st, ts)" by (cases s)
  have inv': "guard_inv (st, ts)" using inv by (simp add: s)
  show ?thesis
  proof (cases ev)
    case (Connect sid)
    show ?thesis unfolding s Connect fire.simps
      by (rule quiet_guard_inv [OF inv' connect_active])
  next
    case (Disconnect sid now a b)
    show ?thesis unfolding s Disconnect fire.simps
      by (rule spawn_guard_inv [OF inv' step_ok_disconnect])
  next
    case (SpeechCompleted sid d)
    show ?thesis unfolding s SpeechCompleted fire.simps
      by (rule quiet_guard_inv [OF inv' speech_completed_active])
  next
    case (UserResponse sid d)
    show ?thesis unfolding s UserResponse fire.simps
      by (rule spawn_guard_inv [OF inv' step_ok_user_response])
  next
    case (UserPrompt sid d f now arn ce)
    show ?thesis unfolding s UserPrompt fire.simps
      by (rule spawn_guard_inv [OF inv' step_ok_user_prompt])
  next
    case (FrontendToolResponse sid d)
    show ?thesis unfolding s FrontendToolResponse fire.simps
      by (rule quiet_guard_inv [OF inv' frontend_tool_response_active])
  next
    case (FrontendAction p c a u e)
    show ?thesis unfolding s FrontendAction fire.simps
      using inv' spawn_guard_inv [OF inv' step_ok_frontend_action [of st p c a u e]] by simp
  next
    case (Wake i w)
    show ?thesis
    proof (cases "i < length ts \<and> snd (resume st (ts ! i) w) \<noteq> Await (ts ! i)")
      case True
      then have "guard_inv (spawn (take i ts @ drop (Suc i) ts) (resume st (ts ! i) w))"
        using wake_guard_inv [OF inv' _ wake_ok_resume] by blast
      with True show ?thesis by (simp add: s Wake Let_def)
    next
      case False
      then have "fire s ev = (st, ts)" by (auto simp: s Wake Let_def)
      with inv' show ?thesis by simp
    qed
  qed
qed

lemma guard_inv_foldl: "guard_inv s \<Longrightarrow> guard_inv (foldl fire s es)"
  by (induction es arbitrary: s) (simp_all add: fire_guard_inv)

lemma guard_inv_run: "guard_inv (run es)"
  unfolding run_def by (rule guard_inv_foldl [OF guard_inv_init])

lemma distinct_fst_filter_le1:
  "distinct (map fst gs) \<Longrightarrow> length (filter (\<lambda>g. fst g = p) gs) \<le> 1"
  by (induction gs) (auto simp: filter_empty_conv image_iff)

lemma active_ops_le1: "guard_inv (st, ts) \<Longrightarrow> length (active_ops ts peer) \<le> 1"
  using distinct_fst_filter_le1 [of "guarded_ops ts" peer]
  by (simp add: guard_inv_def active_ops_def)

subsection \<open>Evaluating the sample runs\<close>

lemmas handler_defs = frontend_action_def handle_builtin_action_def handle_speak_to_user_def
  handle_ask_user_def BUILTIN_ACTIONS_def get_str_def get_obj_def get_bool_def get_int_def
  get_token_def new_future_def emit_def connect_def spawn_def init_def builtin_envelope_def
  dict_get_def speak_payload_def ask_payload_def create_task_payload_def Let_def

lemma run_speaking: "run speaking = (speaking_state, [SpeakWait ''p1'' ''s1'' 0 ''hi''])"
  by (simp add: run_def speaking_def speaking_state_def handler_defs)

lemma run_asking: "run asking = (asking_state, [AskWait ''p1'' ''r1'' 0 ''ok?'' 30])"
  by (simp add: run_def asking_def asking_state_def handler_defs)

lemma run_dispatching: "run dispatching = (dispatching_state, [ToolWait ''t1'' 0])"
  by (simp add: run_def dispatching_def dispatching_state_def handler_defs)

subsection \<open>C1: disconnect\<close>

text \<open>
  Claim C1, as stated, fails. A peer disconnects while the agent is speaking to it:
  after the disconnect handler the speech token is still registered, the busy guard of
  the peer is still held, the future is still pending (not cancelled), and the
  \<^verbatim>\<open>speak_to_user\<close> task is still suspended; it will wait for its timeout.
\<close>

theorem disconnect_leaves_pending_counterexample:
  "pending_speech_completions (fst (run disconnecting)) ''s1'' = Some 0
   \<and> active_speech_per_client (fst (run disconnecting)) ''p1'' = Some ''s1''
   \<and> futures (fst (run disconnecting)) 0 = Some Pending
   \<and> snd (run disconnecting) = [SpeakWait ''p1'' ''s1'' 0 ''hi'']
   \<and> ''p1'' \<notin> connected_clients (fst (run disconnecting))"
proof -
  have "run disconnecting = fire (speaking_state, [SpeakWait ''p1'' ''s1'' 0 ''hi''])
          (Disconnect ''p1'' 5 True True)"
    using run_speaking by (simp add: run_def disconnecting_def)
  also have "\<dots> = (speaking_state\<lparr>connected_clients := {}\<rparr>, [SpeakWait ''p1'' ''s1'' 0 ''hi''])"
    by (simp add: disconnect_def get_session_def remove_session_def spawn_def speaking_state_def
          Let_def)
  finally show ?thesis by (simp add: speaking_state_def)
qed

text \<open>
  Claim C1, amended. The disconnect handler removes the peer from the connected
  clients and deletes its processing-lock entry, so that the lock reads free, and by
  its end it has removed the peer's session. It leaves the three pending tables, the
  futures and the busy guard as they were, and every suspended task suspended: a
  pending request of the peer stays registered, and its waiter waits for a reply or
  for its timeout.
\<close>

theorem disconnect_effect:
  "sid \<notin> connected_clients (fst (disconnect st sid now arn_set client_ok))
   \<and> agent_processing_lock (fst (disconnect st sid now arn_set client_ok)) sid = None
   \<and> pending_tool_calls (fst (disconnect st sid now arn_set client_ok)) = pending_tool_calls st
   \<and> pending_speech_completions (fst (disconnect st sid now arn_set client_ok))
        = pending_speech_completions st
   \<and> pending_user_responses (fst (disconnect st sid now arn_set client_ok))
        = pending_user_responses st
   \<and> active_speech_per_client (fst (disconnect st sid now arn_set client_ok))
        = active_speech_per_client st
   \<and> futures (fst (disconnect st sid now arn_set client_ok)) = futures st
   \<and> (snd (disconnect st sid now arn_set client_ok) = Return JNull
        \<and> sessions (fst (disconnect st sid now arn_set client_ok)) sid = None
       \<or> snd (disconnect st sid now arn_set client_ok) = Await (DisconnectStop sid))
   \<and> sessions (fst (disconnect_stopped st sid)) sid = None
   \<and> snd (disconnect_stopped st sid) = Return JNull
   \<and> pending_tool_calls (fst (disconnect_stopped st sid)) = pending_tool_calls st
   \<and> pending_speech_completions (fst (disconnect_stopped st sid)) = pending_speech_completions st
   \<and> pending_user_responses (fst (disconnect_stopped st sid)) = pending_user_responses st
   \<and> active_speech_per_client (fst (disconnect_stopped st sid)) = active_speech_per_client st
   \<and> futures (fst (disconnect_stopped st sid)) = futures st
   \<and> agent_processing_lock (fst (disconnect_stopped st sid)) = agent_processing_lock st
   \<and> take (length ts) (snd (fire (st, ts) (Disconnect sid now arn_set client_ok))) = ts"
proof -
  let ?r = "disconnect st sid now arn_set client_ok"
  have gs: "get_session s x n = (s', y) \<Longrightarrow>
      connected_clients s' = connected_clients s \<and> agent_processing_lock s' = agent_processing_lock s
      \<and> pending_tool_calls s' = pending_tool_calls s
      \<and> pending_speech_completions s' = pending_speech_completions s
      \<and> pending_user_responses s' = pending_user_responses s
      \<and> active_speech_per_client s' = active_speech_per_client s
      \<and> futures s' = futures s" for s x n s' y
    by (auto simp: get_session_def split: option.splits)
  have d1: "sid \<notin> connected_clients (fst ?r)"
    by (auto simp: disconnect_def Let_def remove_session_def split: prod.splits dest!: gs)
  have d2: "agent_processing_lock (fst ?r) sid = None"
    by (auto simp: disconnect_def Let_def remove_session_def split: prod.splits dest!: gs)
  have d3: "pending_tool_calls (fst ?r) = pending_tool_calls st"
    by (auto simp: disconnect_def Let_def remove_session_def split: prod.splits dest!: gs)
  have d4: "pending_speech_completions (fst ?r) = pending_speech_completions st"
    by (auto simp: disconnect_def Let_def remove_session_def split: prod.splits dest!: gs)
  have d5: "pending_user_responses (fst ?r) = pending_user_responses st"
    by (auto simp: disconnect_def Let_def remove_session_def split: prod.splits dest!: gs)
  have d6: "active_speech_per_client (fst ?r) = active_speech_per_client st"
    by (auto simp: disconnect_def Let_def remove_session_def split: prod.splits dest!: gs)
  have d7: "futures (fst ?r) = futures st"
    by (auto simp: disconnect_def Let_def remove_session_def split: prod.splits dest!: gs)
  have d8: "snd ?r = Return JNull \<and> sessions (fst ?r) sid = None
       \<or> snd ?r = Await (DisconnectStop sid)"
    by (auto simp: disconnect_def Let_def remove_session_def split: prod.splits)
  have e: "sessions (fst (disconnect_stopped st sid)) sid = None
   \<and> snd (disconnect_stopped st sid) = Return JNull
   \<and> pending_tool_calls (fst (disconnect_stopped st sid)) = pending_tool_calls st
   \<and> pending_speech_completions (fst (disconnect_stopped st sid)) = pending_speech_completions st
   \<and> pending_user_responses (fst (disconnect_stopped st sid)) = pending_user_responses st
   \<and> active_speech_per_client (fst (disconnect_stopped st sid)) = active_speech_per_client st
   \<and> futures (fst (disconnect_stopped st sid)) = futures st
   \<and> agent_processing_lock (fst (disconnect_stopped st sid)) = agent_processing_lock st"
    by (auto simp: disconnect_stopped_def remove_session_def)
  have t: "take (length ts) (snd (fire (st, ts) (Disconnect sid now arn_set client_ok))) = ts"
    using d8 by (cases ?r) (auto simp: spawn_def)
  from d1 d2 d3 d4 d5 d6 d7 d8 e t show ?thesis by (intro conjI) simp_all
qed

theorem disconnect_effect_witness:
  "''p1'' \<in> connected_clients speaking_state
   \<and> ''p1'' \<notin> connected_clients (fst (disconnect speaking_state ''p1'' 5 True True))
   \<and> agent_processing_lock (fst (disconnect turning_state ''p1'' 5 True True)) ''p1'' = None
   \<and> snd (disconnect turning_state ''p1'' 5 True True) = Await (DisconnectStop ''p1'')
   \<and> sessions (fst (disconnect_stopped (fst (disconnect turning_state ''p1'' 5 True True)) ''p1''))
        ''p1'' = None
   \<and> pending_speech_completions (fst (disconnect speaking_state ''p1'' 5 True True))
        = pending_speech_completions speaking_state
   \<and> active_speech_per_client (fst (disconnect speaking_state ''p1'' 5 True True))
        = active_speech_per_client speaking_state
   \<and> futures (fst (disconnect speaking_state ''p1'' 5 True True)) = futures speaking_state
   \<and> take (length [SpeakWait ''p1'' ''s1'' 0 ''hi''])
        (snd (fire (speaking_state, [SpeakWait ''p1'' ''s1'' 0 ''hi''])
                (Disconnect ''p1'' 5 True True)))
       = [SpeakWait ''p1'' ''s1'' 0 ''hi'']"
proof -
  note S = disconnect_effect [where st = speaking_state and sid = "''p1''" and now = 5
      and arn_set = True and client_ok = True and ts = "[SpeakWait ''p1'' ''s1'' 0 ''hi'']"]
  note T = disconnect_effect [where st = turning_state and sid = "''p1''" and now = 5
      and arn_set = True and client_ok = True]
  note T' = disconnect_effect [where st = "fst (disconnect turning_state ''p1'' 5 True True)"
      and sid = "''p1''"]
  have h: "''p1'' \<in> connected_clients speaking_state" by (simp add: speaking_state_def)
  have a: "snd (disconnect turning_state ''p1'' 5 True True) = Await (DisconnectStop ''p1'')"
    by (simp add: disconnect_def get_session_def turning_state_def Let_def)
  show ?thesis
    by (intro conjI h S [THEN conjunct1] T [THEN conjunct2, THEN conjunct1] a T' [THEN conjunct2, THEN conjunct2, THEN conjunct2, THEN conjunct2, THEN conjunct2, THEN conjunct2, THEN conjunct2, THEN conjunct2, THEN conjunct1] S [THEN conjunct2, THEN conjunct2, THEN conjunct2, THEN conjunct1] S [THEN conjunct2, THEN conjunct2, THEN conjunct2, THEN conjunct2, THEN conjunct2, THEN conjunct1] S [THEN conjunct2, THEN conjunct2, THEN conjunct2, THEN conjunct2, THEN conjunct2, THEN conjunct2, THEN conjunct1] S [THEN conjunct2, THEN conjunct2, THEN conjunct2, THEN conjunct2, THEN conjunct2, THEN conjunct2, THEN conjunct2, THEN conjunct2, THEN conjunct2, THEN conjunct2, THEN conjunct2, THEN conjunct2, THEN conjunct2, THEN conjunct2, THEN conjunct2, THEN conjunct2])
qed

subsection \<open>C2: one busy-guarded operation per peer\<close>

text \<open>
  Claim C2. Along every run of the server, from the initial state and under any
  sequence of events, each peer has at most one suspended \<^verbatim>\<open>speak_to_user\<close> or
  \<^verbatim>\<open>ask_user\<close>, and each such operation is the one whose id the guard of its
  peer holds. A second attempt (a call that carries its message or question) made
  while the guard is held returns at once, in the segment in which it checks the
  guard, with the state untouched and a failure that names the holder's id. The check
  and the set are one segment: what the source awaits between them,
  \<^verbatim>\<open>_generate_speech\<close>, is a coroutine with no await of its own and runs to its
  end without yielding to the event loop. So whenever a call reaches its suspension,
  the guard was free when the segment began and holds the call's own id when the
  segment ends.
\<close>

theorem busy_guard_single_flight:
  "length (active_ops (snd (run es)) peer) \<le> 1
   \<and> (\<forall>g \<in> set (guarded_ops (snd (run es))).
         active_speech_per_client (fst (run es)) (fst g) = Some (snd g))
   \<and> (active_speech_per_client st c = Some h \<and> get_str p ''message'' '''' \<noteq> '''' \<longrightarrow>
         handle_speak_to_user st c p a i e =
           (st, Return (JObj [(''success'', JBool False),
                  (''error'', JStr (''Speech already in progress (ID: '' @ h
                                    @ ''). Please wait for it to complete.''))])))
   \<and> (active_speech_per_client st c = Some h \<and> get_str q ''question'' '''' \<noteq> '''' \<longrightarrow>
         handle_ask_user st c q a i e =
           (st, Return (JObj [(''success'', JBool False),
                  (''error'', JStr (''Speech already in progress (ID: '' @ h
                                    @ ''). Please wait for it to complete.''))])))
   \<and> (handle_speak_to_user s0 c p a i e = (s1, Await k) \<longrightarrow>
         active_speech_per_client s0 c = None \<and> active_speech_per_client s1 c = Some i
         \<and> holder k = Some (c, i))
   \<and> (handle_ask_user s0 c q a i e = (s2, Await k') \<longrightarrow>
         active_speech_per_client s0 c = None \<and> active_speech_per_client s2 c = Some i
         \<and> holder k' = Some (c, i))"
proof -
  have inv: "guard_inv (fst (run es), snd (run es))"
    using guard_inv_run [of es] by simp
  have one: "length (active_ops (snd (run es)) peer) \<le> 1"
    by (rule active_ops_le1 [OF inv])
  have held: "\<forall>g \<in> set (guarded_ops (snd (run es))).
                active_speech_per_client (fst (run es)) (fst g) = Some (snd g)"
    using inv by (simp add: guard_inv_def)
  have speak2: "active_speech_per_client st c = Some h \<and> get_str p ''message'' '''' \<noteq> '''' \<longrightarrow>
         handle_speak_to_user st c p a i e =
           (st, Return (JObj [(''success'', JBool False),
                  (''error'', JStr (''Speech already in progress (ID: '' @ h
                                    @ ''). Please wait for it to complete.''))]))"
    by (simp add: handle_speak_to_user_def already_in_progress_def Let_def)
  have ask2: "active_speech_per_client st c = Some h \<and> get_str q ''question'' '''' \<noteq> '''' \<longrightarrow>
         handle_ask_user st c q a i e =
           (st, Return (JObj [(''success'', JBool False),
                  (''error'', JStr (''Speech already in progress (ID: '' @ h
                                    @ ''). Please wait for it to complete.''))]))"
    by (simp add: handle_ask_user_def already_in_progress_def Let_def)
  have speak1: "handle_speak_to_user s0 c p a i e = (s1, Await k) \<longrightarrow>
         active_speech_per_client s0 c = None \<and> active_speech_per_client s1 c = Some i
         \<and> holder k = Some (c, i)"
    using speak_start_cases [of s0 c p a i e s1 "Await k"] by auto
  have ask1: "handle_ask_user s0 c q a i e = (s2, Await k') \<longrightarrow>
         active_speech_per_client s0 c = None \<and> active_speech_per_client s2 c = Some i
         \<and> holder k' = Some (c, i)"
    using ask_start_cases [of s0 c q a i e s2 "Await k'"] by auto
  show ?thesis
    by (intro conjI one held speak2 ask2 speak1 ask1)
qed

theorem busy_guard_single_flight_witness:
  "length (active_ops (snd (run speaking)) ''p1'') \<le> 1
   \<and> (''p1'', ''s1'') \<in> set (guarded_ops (snd (run speaking)))
   \<and> active_speech_per_client (fst (run speaking)) (fst (''p1'', ''s1'')) = Some (snd (''p1'', ''s1''))
   \<and> get_str [(''message'', JStr ''again'')] ''message'' '''' \<noteq> ''''
   \<and> handle_speak_to_user (fst (run speaking)) ''p1'' [(''message'', JStr ''again'')]
        (Some ''QUJD'') ''s2'' None =
        (fst (run speaking),
         Return (JObj [(''success'', JBool False),
           (''error'', JStr (''Speech already in progress (ID: '' @ ''s1''
                             @ ''). Please wait for it to complete.''))]))
   \<and> get_str [(''question'', JStr ''ok?'')] ''question'' '''' \<noteq> ''''
   \<and> handle_ask_user (fst (run speaking)) ''p1'' [(''question'', JStr ''ok?'')]
        (Some ''QUJD'') ''s2'' None =
        (fst (run speaking),
         Return (JObj [(''success'', JBool False),
           (''error'', JStr (''Speech already in progress (ID: '' @ ''s1''
                             @ ''). Please wait for it to complete.''))]))
   \<and> handle_speak_to_user (connect init ''p1'') ''p1'' [(''message'', JStr ''hi'')]
        (Some ''QUJD'') ''s1'' None = (speaking_state, Await (SpeakWait ''p1'' ''s1'' 0 ''hi''))
   \<and> active_speech_per_client (connect init ''p1'') ''p1'' = None
   \<and> active_speech_per_client speaking_state ''p1'' = Some ''s1''
   \<and> holder (SpeakWait ''p1'' ''s1'' 0 ''hi'') = Some (''p1'', ''s1'')"
proof -
  note held = busy_guard_single_flight [where es = speaking and peer = "''p1''"
      and st = "fst (run speaking)" and c = "''p1''" and h = "''s1''"
      and p = "[(''message'', JStr ''again'')]" and q = "[(''question'', JStr ''ok?'')]"
      and a = "Some ''QUJD''" and i = "''s2''" and e = None]
  note free = busy_guard_single_flight [where ?s0.0 = "connect init ''p1''" and c = "''p1''"
      and p = "[(''message'', JStr ''hi'')]" and a = "Some ''QUJD''" and i = "''s1''" and e = None
      and ?s1.0 = speaking_state and k = "SpeakWait ''p1'' ''s1'' 0 ''hi''"]
  have mem: "(''p1'', ''s1'') \<in> set (guarded_ops (snd (run speaking)))"
    by (simp add: run_speaking guarded_ops_def List.map_filter_def)
  have g: "active_speech_per_client (fst (run speaking)) ''p1'' = Some ''s1''"
    by (simp add: run_speaking speaking_state_def)
  have m: "get_str [(''message'', JStr ''again'')] ''message'' '''' \<noteq> ''''"
    by (simp add: get_str_def)
  have q: "get_str [(''question'', JStr ''ok?'')] ''question'' '''' \<noteq> ''''"
    by (simp add: get_str_def)
  have start: "handle_speak_to_user (connect init ''p1'') ''p1'' [(''message'', JStr ''hi'')]
        (Some ''QUJD'') ''s1'' None = (speaking_state, Await (SpeakWait ''p1'' ''s1'' 0 ''hi''))"
    by (simp add: speaking_state_def handler_defs)
  from held have c1: "length (active_ops (snd (run speaking)) ''p1'') \<le> 1" by (rule conjunct1)
  from held mem have c2: "active_speech_per_client (fst (run speaking)) (fst (''p1'', ''s1''))
      = Some (snd (''p1'', ''s1''))" by blast
  from held g m have c3: "handle_speak_to_user (fst (run speaking)) ''p1'' [(''message'', JStr ''again'')]
        (Some ''QUJD'') ''s2'' None =
        (fst (run speaking),
         Return (JObj [(''success'', JBool False),
           (''error'', JStr (''Speech already in progress (ID: '' @ ''s1''
                             @ ''). Please wait for it to complete.''))]))" by blast
  from held g q have c4: "handle_ask_user (fst (run speaking)) ''p1'' [(''question'', JStr ''ok?'')]
        (Some ''QUJD'') ''s2'' None =
        (fst (run speaking),
         Return (JObj [(''success'', JBool False),
           (''error'', JStr (''Speech already in progress (ID: '' @ ''s1''
                             @ ''). Please wait for it to complete.''))]))" by blast
  from free start have c5: "active_speech_per_client (connect init ''p1'') ''p1'' = None
     \<and> active_speech_per_client speaking_state ''p1'' = Some ''s1''
     \<and> holder (SpeakWait ''p1'' ''s1'' 0 ''hi'') = Some (''p1'', ''s1'')" by blast
  from c1 mem c2 m c3 q c4 start c5 show ?thesis by (intro conjI) simp_all
qed

subsection \<open>C3: resolving a token\<close>

text \<open>
  Claim C3. Delivering a reply for a token completes the pending future with the
  payload, and returns true, exactly when the table has a future under the token that
  is not yet done; otherwise it returns false and leaves the state as it is (the
  tool-call handler, which returns no value, then at most drops the entry of the
  token). So a duplicate reply is refused, and so is a reply that comes after the
  waiter has returned, by result or by timeout, since the waiter's exit removes the
  entry. The handlers are total functions on well-typed tokens and payloads: the
  source has no raising path in them, and the model none either.
\<close>

theorem resolve_iff_pending:
  "(snd (handle_user_response st t p) \<longleftrightarrow>
      (\<exists>f. pending_user_responses st t = Some f \<and> \<not> fut_done st f))
   \<and> (pending_user_responses st t = Some f \<and> \<not> fut_done st f \<longrightarrow>
        fst (handle_user_response st t p) = set_result st f p
        \<and> futures (fst (handle_user_response st t p)) f = Some (Finished p))
   \<and> (\<not> snd (handle_user_response st t p) \<longrightarrow> fst (handle_user_response st t p) = st)
   \<and> (snd (handle_speech_completion st t) \<longleftrightarrow>
        (\<exists>f. pending_speech_completions st t = Some f \<and> \<not> fut_done st f))
   \<and> (pending_speech_completions st t = Some f \<and> \<not> fut_done st f \<longrightarrow>
        fst (handle_speech_completion st t) = set_result st f (JBool True))
   \<and> (\<not> snd (handle_speech_completion st t) \<longrightarrow> fst (handle_speech_completion st t) = st)
   \<and> (get_token d ''toolCallId'' = Some t \<and> pending_tool_calls st t = Some f \<and> \<not> fut_done st f
        \<longrightarrow> futures (frontend_tool_response st sid d) = (futures st)(f \<mapsto> Finished (JObj d)))
   \<and> (\<not> (\<exists>f. get_token d ''toolCallId'' = Some t \<and> pending_tool_calls st t = Some f
               \<and> \<not> fut_done st f)
        \<and> get_token d ''toolCallId'' \<in> {None, Some t}
        \<longrightarrow> futures (frontend_tool_response st sid d) = futures st)
   \<and> dom (pending_tool_calls (frontend_tool_response st sid d)) \<subseteq> dom (pending_tool_calls st)
   \<and> \<not> snd (handle_user_response (fst (handle_user_response st t p)) t p2)
   \<and> \<not> snd (handle_speech_completion (fst (handle_speech_completion st t)) t)
   \<and> (snd (ask_wait_done st c t f q n) \<noteq> Await (AskWait c t f q n) \<longrightarrow>
        handle_user_response (fst (ask_wait_done st c t f q n)) t p
          = (fst (ask_wait_done st c t f q n), False))
   \<and> handle_user_response (fst (ask_wait_timeout st c t f q n)) t p
          = (fst (ask_wait_timeout st c t f q n), False)
   \<and> (snd (speak_wait_done st c t f m) \<noteq> Await (SpeakWait c t f m) \<longrightarrow>
        handle_speech_completion (fst (speak_wait_done st c t f m)) t
          = (fst (speak_wait_done st c t f m), False))
   \<and> handle_speech_completion (fst (speak_wait_timeout st c t f m)) t
          = (fst (speak_wait_timeout st c t f m), False)
   \<and> (get_token d ''toolCallId'' = Some t \<and> (\<forall>v. futures st f \<noteq> Some (Finished v)) \<longrightarrow>
        frontend_tool_response (fst (tool_wait_timeout st t f)) sid d
          = fst (tool_wait_timeout st t f))
   \<and> (get_token d ''toolCallId'' = Some t \<and> get_token d2 ''toolCallId'' = Some t \<longrightarrow>
        frontend_tool_response (frontend_tool_response st sid d) sid d2
          = frontend_tool_response st sid d)"
proof -
  have u1: "snd (handle_user_response st t p) \<longleftrightarrow>
      (\<exists>f. pending_user_responses st t = Some f \<and> \<not> fut_done st f)"
    by (auto simp: handle_user_response_def split: option.splits)
  have u2: "pending_user_responses st t = Some f \<and> \<not> fut_done st f \<longrightarrow>
        fst (handle_user_response st t p) = set_result st f p
        \<and> futures (fst (handle_user_response st t p)) f = Some (Finished p)"
    by (auto simp: handle_user_response_def set_result_def)
  have u3: "\<not> snd (handle_user_response st t p) \<longrightarrow> fst (handle_user_response st t p) = st"
    by (auto simp: handle_user_response_def split: option.splits)
  have s1: "snd (handle_speech_completion st t) \<longleftrightarrow>
        (\<exists>f. pending_speech_completions st t = Some f \<and> \<not> fut_done st f)"
    by (auto simp: handle_speech_completion_def split: option.splits)
  have s2: "pending_speech_completions st t = Some f \<and> \<not> fut_done st f \<longrightarrow>
        fst (handle_speech_completion st t) = set_result st f (JBool True)"
    by (auto simp: handle_speech_completion_def)
  have s3: "\<not> snd (handle_speech_completion st t) \<longrightarrow> fst (handle_speech_completion st t) = st"
    by (auto simp: handle_speech_completion_def split: option.splits)
  have t1: "get_token d ''toolCallId'' = Some t \<and> pending_tool_calls st t = Some f \<and> \<not> fut_done st f
        \<longrightarrow> futures (frontend_tool_response st sid d) = (futures st)(f \<mapsto> Finished (JObj d))"
    by (auto simp: frontend_tool_response_def set_result_def Let_def)
  have t2: "\<not> (\<exists>f. get_token d ''toolCallId'' = Some t \<and> pending_tool_calls st t = Some f
               \<and> \<not> fut_done st f)
        \<and> get_token d ''toolCallId'' \<in> {None, Some t}
        \<longrightarrow> futures (frontend_tool_response st sid d) = futures st"
    by (auto simp: frontend_tool_response_def Let_def split: option.splits)
  have t3: "dom (pending_tool_calls (frontend_tool_response st sid d)) \<subseteq> dom (pending_tool_calls st)"
    by (auto simp: frontend_tool_response_def Let_def set_result_def split: option.splits if_splits)
  have d1: "\<not> snd (handle_user_response (fst (handle_user_response st t p)) t p2)"
    by (auto simp: handle_user_response_def set_result_def fut_done_def is_done_def
             split: option.splits)
  have d2: "\<not> snd (handle_speech_completion (fst (handle_speech_completion st t)) t)"
    by (auto simp: handle_speech_completion_def set_result_def fut_done_def is_done_def
             split: option.splits)
  have a1: "snd (ask_wait_done st c t f q n) \<noteq> Await (AskWait c t f q n) \<longrightarrow>
        handle_user_response (fst (ask_wait_done st c t f q n)) t p
          = (fst (ask_wait_done st c t f q n), False)"
    by (auto simp: ask_wait_done_def ask_finally_def handle_user_response_def Let_def
             split: option.splits fut.splits)
  have a2: "handle_user_response (fst (ask_wait_timeout st c t f q n)) t p
          = (fst (ask_wait_timeout st c t f q n), False)"
    by (auto simp: ask_wait_timeout_def ask_wait_done_def ask_finally_def handle_user_response_def
                   cancel_future_def Let_def
             split: option.splits fut.splits)
  have k1: "snd (speak_wait_done st c t f m) \<noteq> Await (SpeakWait c t f m) \<longrightarrow>
        handle_speech_completion (fst (speak_wait_done st c t f m)) t
          = (fst (speak_wait_done st c t f m), False)"
    by (auto simp: speak_wait_done_def speak_finally_def handle_speech_completion_def Let_def
             split: option.splits fut.splits)
  have k2: "handle_speech_completion (fst (speak_wait_timeout st c t f m)) t
          = (fst (speak_wait_timeout st c t f m), False)"
    by (auto simp: speak_wait_timeout_def speak_wait_done_def speak_finally_def
                   handle_speech_completion_def cancel_future_def Let_def
             split: option.splits fut.splits)
  have w1: "get_token d ''toolCallId'' = Some t \<and> (\<forall>v. futures st f \<noteq> Some (Finished v)) \<longrightarrow>
        frontend_tool_response (fst (tool_wait_timeout st t f)) sid d
          = fst (tool_wait_timeout st t f)"
    by (auto simp: tool_wait_timeout_def frontend_tool_response_def drop_tool_call_def
                   cancel_future_def Let_def
             split: option.splits fut.splits)
  have w2: "get_token d ''toolCallId'' = Some t \<and> get_token d2 ''toolCallId'' = Some t \<longrightarrow>
        frontend_tool_response (frontend_tool_response st sid d) sid d2
          = frontend_tool_response st sid d"
    by (auto simp: frontend_tool_response_def Let_def split: option.splits)
  show ?thesis
    by (intro conjI u1 u2 u3 s1 s2 s3 t1 t2 t3 d1 d2 a1 a2 k1 k2 w1 w2)
qed

theorem resolve_iff_pending_witness:
  "pending_user_responses asking_state ''r1'' = Some 0 \<and> \<not> fut_done asking_state 0
   \<and> snd (handle_user_response asking_state ''r1'' (JStr ''yes''))
   \<and> futures (fst (handle_user_response asking_state ''r1'' (JStr ''yes''))) 0
        = Some (Finished (JStr ''yes''))
   \<and> \<not> snd (handle_user_response asking_state ''zz'' (JStr ''yes''))
   \<and> fst (handle_user_response asking_state ''zz'' (JStr ''yes'')) = asking_state
   \<and> \<not> snd (handle_user_response (fst (handle_user_response asking_state ''r1'' (JStr ''yes'')))
              ''r1'' (JStr ''no''))
   \<and> snd (ask_wait_done (fst (handle_user_response asking_state ''r1'' (JStr ''yes'')))
              ''p1'' ''r1'' 0 ''ok?'' 30) \<noteq> Await (AskWait ''p1'' ''r1'' 0 ''ok?'' 30)
   \<and> handle_user_response
        (fst (ask_wait_done (fst (handle_user_response asking_state ''r1'' (JStr ''yes'')))
                ''p1'' ''r1'' 0 ''ok?'' 30)) ''r1'' (JStr ''late'')
      = (fst (ask_wait_done (fst (handle_user_response asking_state ''r1'' (JStr ''yes'')))
                ''p1'' ''r1'' 0 ''ok?'' 30), False)
   \<and> handle_user_response (fst (ask_wait_timeout asking_state ''p1'' ''r1'' 0 ''ok?'' 30))
        ''r1'' (JStr ''late'')
      = (fst (ask_wait_timeout asking_state ''p1'' ''r1'' 0 ''ok?'' 30), False)
   \<and> pending_speech_completions speaking_state ''s1'' = Some 0 \<and> \<not> fut_done speaking_state 0
   \<and> fst (handle_speech_completion speaking_state ''s1'')
        = set_result speaking_state 0 (JBool True)
   \<and> \<not> snd (handle_speech_completion speaking_state ''zz'')
   \<and> fst (handle_speech_completion speaking_state ''zz'') = speaking_state
   \<and> snd (speak_wait_done (fst (handle_speech_completion speaking_state ''s1''))
              ''p1'' ''s1'' 0 ''hi'') \<noteq> Await (SpeakWait ''p1'' ''s1'' 0 ''hi'')
   \<and> handle_speech_completion
        (fst (speak_wait_done (fst (handle_speech_completion speaking_state ''s1''))
                ''p1'' ''s1'' 0 ''hi'')) ''s1''
      = (fst (speak_wait_done (fst (handle_speech_completion speaking_state ''s1''))
                ''p1'' ''s1'' 0 ''hi''), False)
   \<and> get_token reply ''toolCallId'' = Some ''t1''
   \<and> pending_tool_calls dispatching_state ''t1'' = Some 0 \<and> \<not> fut_done dispatching_state 0
   \<and> futures (frontend_tool_response dispatching_state ''p1'' reply)
        = (futures dispatching_state)(0 \<mapsto> Finished (JObj reply))
   \<and> futures (frontend_tool_response asking_state ''p1'' reply) = futures asking_state
   \<and> frontend_tool_response (fst (tool_wait_timeout dispatching_state ''t1'' 0)) ''p1'' reply
        = fst (tool_wait_timeout dispatching_state ''t1'' 0)
   \<and> frontend_tool_response (frontend_tool_response dispatching_state ''p1'' reply) ''p1'' reply
        = frontend_tool_response dispatching_state ''p1'' reply"
proof -
  let ?A = asking_state and ?S = speaking_state and ?D = dispatching_state
  let ?A' = "fst (handle_user_response asking_state ''r1'' (JStr ''yes''))"
  let ?S' = "fst (handle_speech_completion speaking_state ''s1'')"
  note A = resolve_iff_pending [where st = ?A and t = "''r1''" and f = 0 and p = "JStr ''yes''"
      and ?p2.0 = "JStr ''no''" and c = "''p1''" and q = "''ok?''" and n = 30]
  note Al = resolve_iff_pending [where st = ?A and t = "''r1''" and f = 0 and p = "JStr ''late''"
      and c = "''p1''" and q = "''ok?''" and n = 30]
  note Az = resolve_iff_pending [where st = ?A and t = "''zz''" and p = "JStr ''yes''"]
  note A' = resolve_iff_pending [where st = ?A' and t = "''r1''" and f = 0 and p = "JStr ''late''"
      and c = "''p1''" and q = "''ok?''" and n = 30]
  note S = resolve_iff_pending [where st = ?S and t = "''s1''" and f = 0]
  note Sz = resolve_iff_pending [where st = ?S and t = "''zz''"]
  note S' = resolve_iff_pending [where st = ?S' and t = "''s1''" and f = 0 and c = "''p1''"
      and m = "''hi''"]
  note D = resolve_iff_pending [where st = ?D and t = "''t1''" and f = 0 and d = reply
      and ?d2.0 = reply and sid = "''p1''"]
  note Ar = resolve_iff_pending [where st = ?A and t = "''t1''" and d = reply and sid = "''p1''"]
  have a1: "pending_user_responses ?A ''r1'' = Some 0" by (simp add: asking_state_def)
  have a2: "\<not> fut_done ?A 0" by (simp add: asking_state_def fut_done_def is_done_def)
  have a3: "snd (handle_user_response ?A ''r1'' (JStr ''yes''))"
    using a1 a2 by (simp add: A [THEN conjunct1])
  note a4 = A [THEN conjunct2, THEN conjunct1, THEN mp, OF conjI [OF a1 a2], THEN conjunct2]
  have a5: "\<not> snd (handle_user_response ?A ''zz'' (JStr ''yes''))"
    by (simp add: handle_user_response_def asking_state_def)
  note a6 = Az [THEN conjunct2, THEN conjunct2, THEN conjunct1, THEN mp, OF a5]
  note a7 = A [THEN conjunct2, THEN conjunct2, THEN conjunct2, THEN conjunct2, THEN conjunct2, THEN conjunct2, THEN conjunct2, THEN conjunct2, THEN conjunct2, THEN conjunct1]
  have a8: "snd (ask_wait_done ?A' ''p1'' ''r1'' 0 ''ok?'' 30) \<noteq> Await (AskWait ''p1'' ''r1'' 0 ''ok?'' 30)"
    by (simp add: ask_wait_done_def a4)
  note a9 = A' [THEN conjunct2, THEN conjunct2, THEN conjunct2, THEN conjunct2, THEN conjunct2, THEN conjunct2, THEN conjunct2, THEN conjunct2, THEN conjunct2, THEN conjunct2, THEN conjunct2, THEN conjunct1, THEN mp, OF a8]
  note a10 = Al [THEN conjunct2, THEN conjunct2, THEN conjunct2, THEN conjunct2, THEN conjunct2, THEN conjunct2, THEN conjunct2, THEN conjunct2, THEN conjunct2, THEN conjunct2, THEN conjunct2, THEN conjunct2, THEN conjunct1]
  have s1: "pending_speech_completions ?S ''s1'' = Some 0" by (simp add: speaking_state_def)
  have s2: "\<not> fut_done ?S 0" by (simp add: speaking_state_def fut_done_def is_done_def)
  note s3 = S [THEN conjunct2, THEN conjunct2, THEN conjunct2, THEN conjunct2, THEN conjunct1, THEN mp, OF conjI [OF s1 s2]]
  have s4: "\<not> snd (handle_speech_completion ?S ''zz'')"
    by (simp add: handle_speech_completion_def speaking_state_def)
  note s5 = Sz [THEN conjunct2, THEN conjunct2, THEN conjunct2, THEN conjunct2, THEN conjunct2, THEN conjunct1, THEN mp, OF s4]
  have s6: "snd (speak_wait_done ?S' ''p1'' ''s1'' 0 ''hi'') \<noteq> Await (SpeakWait ''p1'' ''s1'' 0 ''hi'')"
    by (simp add: speak_wait_done_def s3 set_result_def)
  note s7 = S' [THEN conjunct2, THEN conjunct2, THEN conjunct2, THEN conjunct2, THEN conjunct2, THEN conjunct2, THEN conjunct2, THEN conjunct2, THEN conjunct2, THEN conjunct2, THEN conjunct2, THEN conjunct2, THEN conjunct2, THEN conjunct1, THEN mp, OF s6]
  have d1: "get_token reply ''toolCallId'' = Some ''t1''" by (simp add: get_token_def reply_def)
  have d2: "pending_tool_calls ?D ''t1'' = Some 0" by (simp add: dispatching_state_def)
  have d3: "\<not> fut_done ?D 0" by (simp add: dispatching_state_def fut_done_def is_done_def)
  note d4 = D [THEN conjunct2, THEN conjunct2, THEN conjunct2, THEN conjunct2, THEN conjunct2, THEN conjunct2, THEN conjunct1, THEN mp, OF conjI [OF d1 conjI [OF d2 d3]]]
  have d5h: "\<not> (\<exists>f. get_token reply ''toolCallId'' = Some ''t1'' \<and> pending_tool_calls ?A ''t1'' = Some f
               \<and> \<not> fut_done ?A f)
        \<and> get_token reply ''toolCallId'' \<in> {None, Some ''t1''}"
    by (simp add: d1 asking_state_def)
  note d5 = Ar [THEN conjunct2, THEN conjunct2, THEN conjunct2, THEN conjunct2, THEN conjunct2, THEN conjunct2, THEN conjunct2, THEN conjunct1, THEN mp, OF d5h]
  have d6h: "\<forall>v. futures ?D 0 \<noteq> Some (Finished v)" by (simp add: dispatching_state_def)
  note d6 = D [THEN conjunct2, THEN conjunct2, THEN conjunct2, THEN conjunct2, THEN conjunct2, THEN conjunct2, THEN conjunct2, THEN conjunct2, THEN conjunct2, THEN conjunct2, THEN conjunct2, THEN conjunct2, THEN conjunct2, THEN conjunct2, THEN conjunct2, THEN conjunct1, THEN mp, OF conjI [OF d1 d6h]]
  note d7 = D [THEN conjunct2, THEN conjunct2, THEN conjunct2, THEN conjunct2, THEN conjunct2, THEN conjunct2, THEN conjunct2, THEN conjunct2, THEN conjunct2, THEN conjunct2, THEN conjunct2, THEN conjunct2, THEN conjunct2, THEN conjunct2, THEN conjunct2, THEN conjunct2, THEN mp, OF conjI [OF d1 d1]]
  show ?thesis
    by (intro conjI a1 a2 a3 a4 a5 a6 a7 a8 a9 a10 s1 s2 s3 s4 s5 s6 s7 d1 d2 d3 d4 d5 d6 d7)
qed

subsection \<open>C4: what a failure yields\<close>




subsection \<open>C5: registering a token\<close>

text \<open>
  Claim C5, as stated, fails. The agent dispatches an action under the token
  \<open>t1\<close> and, while that request is pending, a second dispatch draws \<open>t1\<close>
  again: the second registration does not fail. It suspends like the first, and the
  table entry of \<open>t1\<close> now holds the second future in place of the first.
\<close>

theorem register_replaces_counterexample:
  "pending_tool_calls (fst (run dispatching)) ''t1'' = Some 0
   \<and> snd (frontend_action (fst (run dispatching)) create_task_payload ''p1'' None ''t1'' None)
       = Await (ToolWait ''t1'' 1)
   \<and> pending_tool_calls (fst (run dispatching_twice)) ''t1'' = Some 1
   \<and> snd (run dispatching_twice) = [ToolWait ''t1'' 0, ToolWait ''t1'' 1]"
proof -
  have step: "frontend_action dispatching_state create_task_payload ''p1'' None ''t1'' None
      = (emit (dispatching_state\<lparr>pending_tool_calls := [''t1'' \<mapsto> 1],
                 futures := [0 \<mapsto> Pending, 1 \<mapsto> Pending], next_future := 2\<rparr>)
           ''frontend_tool''
           (JObj [(''toolCallId'', JStr ''t1''), (''action'', JStr ''create_task''),
                  (''id'', JStr ''todo-list''),
                  (''args'', JList [JObj [(''title'', JStr ''t'')]])]) ''p1'',
         Await (ToolWait ''t1'' 1))"
    by (simp add: frontend_action_def handle_builtin_action_def BUILTIN_ACTIONS_def get_str_def
          get_obj_def new_future_def create_task_payload_def dispatching_state_def emit_def Let_def)
  have twice: "run dispatching_twice =
      fire (dispatching_state, [ToolWait ''t1'' 0])
        (FrontendAction create_task_payload ''p1'' None ''t1'' None)"
    using run_dispatching by (simp add: run_def dispatching_twice_def)
  have c1: "pending_tool_calls (fst (run dispatching)) ''t1'' = Some 0"
    by (simp add: run_dispatching dispatching_state_def)
  have c2: "snd (frontend_action (fst (run dispatching)) create_task_payload ''p1'' None ''t1'' None)
       = Await (ToolWait ''t1'' 1)"
    by (simp add: run_dispatching step)
  have cc: "''p1'' \<in> connected_clients dispatching_state" by (simp add: dispatching_state_def)
  have twice': "run dispatching_twice =
      spawn [ToolWait ''t1'' 0]
        (frontend_action dispatching_state create_task_payload ''p1'' None ''t1'' None)"
    using cc by (simp add: twice)
  have c3: "pending_tool_calls (fst (run dispatching_twice)) ''t1'' = Some 1"
    unfolding twice' step by (simp add: spawn_def emit_def)
  have c4: "snd (run dispatching_twice) = [ToolWait ''t1'' 0, ToolWait ''t1'' 1]"
    unfolding twice' step by (simp add: spawn_def)
  show ?thesis by (intro conjI c1 c2 c3 c4)
qed

text \<open>
  Claim C5, amended. Registration never fails and never checks the token. A generic
  dispatch whose emit succeeds, and an \<^verbatim>\<open>ask_user\<close> that has acquired the guard,
  each create exactly one new pending future and store it under their token, whatever
  the table held there, and suspend on that future: for a token not yet registered this
  adds one entry to the table, for a token already registered it replaces the entry.
\<close>

theorem register_unconditional:
  "(get_str payload ''action'' '''' \<noteq> '''' \<and> get_str payload ''action'' '''' \<notin> set BUILTIN_ACTIONS
    \<and> connected_clients st \<noteq> {} \<longrightarrow>
      snd (frontend_action st payload client_sid audio t None) = Await (ToolWait t (next_future st))
      \<and> pending_tool_calls (fst (frontend_action st payload client_sid audio t None))
          = (pending_tool_calls st)(t \<mapsto> next_future st)
      \<and> futures (fst (frontend_action st payload client_sid audio t None))
          = (futures st)(next_future st \<mapsto> Pending)
      \<and> next_future (fst (frontend_action st payload client_sid audio t None))
          = Suc (next_future st))
   \<and> (get_str p ''question'' '''' \<noteq> '''' \<and> active_speech_per_client st c = None
       \<and> au \<noteq> '''' \<longrightarrow>
      snd (handle_ask_user st c p (Some au) t None)
        = Await (AskWait c t (next_future st) (get_str p ''question'' '''')
                   (get_int p ''timeout'' 30))
      \<and> pending_user_responses (fst (handle_ask_user st c p (Some au) t None))
          = (pending_user_responses st)(t \<mapsto> next_future st)
      \<and> futures (fst (handle_ask_user st c p (Some au) t None))
          = (futures st)(next_future st \<mapsto> Pending)
      \<and> next_future (fst (handle_ask_user st c p (Some au) t None))
          = Suc (next_future st))"
proof -
  have tool: "get_str payload ''action'' '''' \<noteq> '''' \<and> get_str payload ''action'' '''' \<notin> set BUILTIN_ACTIONS
    \<and> connected_clients st \<noteq> {} \<longrightarrow>
      snd (frontend_action st payload client_sid audio t None) = Await (ToolWait t (next_future st))
      \<and> pending_tool_calls (fst (frontend_action st payload client_sid audio t None))
          = (pending_tool_calls st)(t \<mapsto> next_future st)
      \<and> futures (fst (frontend_action st payload client_sid audio t None))
          = (futures st)(next_future st \<mapsto> Pending)
      \<and> next_future (fst (frontend_action st payload client_sid audio t None))
          = Suc (next_future st)"
    by (simp add: frontend_action_def handle_builtin_action_def new_future_def emit_def Let_def)
  have ask: "get_str p ''question'' '''' \<noteq> '''' \<and> active_speech_per_client st c = None
       \<and> au \<noteq> '''' \<longrightarrow>
      snd (handle_ask_user st c p (Some au) t None)
        = Await (AskWait c t (next_future st) (get_str p ''question'' '''')
                   (get_int p ''timeout'' 30))
      \<and> pending_user_responses (fst (handle_ask_user st c p (Some au) t None))
          = (pending_user_responses st)(t \<mapsto> next_future st)
      \<and> futures (fst (handle_ask_user st c p (Some au) t None))
          = (futures st)(next_future st \<mapsto> Pending)
      \<and> next_future (fst (handle_ask_user st c p (Some au) t None))
          = Suc (next_future st)"
    by (simp add: handle_ask_user_def new_future_def emit_def Let_def)
  show ?thesis by (intro conjI tool ask)
qed

theorem register_unconditional_witness:
  "get_str create_task_payload ''action'' '''' \<noteq> ''''
   \<and> get_str create_task_payload ''action'' '''' \<notin> set BUILTIN_ACTIONS
   \<and> connected_clients dispatching_state \<noteq> {}
   \<and> pending_tool_calls dispatching_state ''t1'' = Some 0
   \<and> next_future dispatching_state = 1
   \<and> snd (frontend_action dispatching_state create_task_payload ''p1'' None ''t1'' None)
       = Await (ToolWait ''t1'' (next_future dispatching_state))
   \<and> pending_tool_calls
        (fst (frontend_action dispatching_state create_task_payload ''p1'' None ''t1'' None))
       = (pending_tool_calls dispatching_state)(''t1'' \<mapsto> next_future dispatching_state)
   \<and> get_str [(''question'', JStr ''ok?'')] ''question'' '''' \<noteq> ''''
   \<and> active_speech_per_client dispatching_state ''p1'' = None
   \<and> ''QUJD'' \<noteq> ''''
   \<and> pending_user_responses
        (fst (handle_ask_user dispatching_state ''p1'' [(''question'', JStr ''ok?'')]
                (Some ''QUJD'') ''r1'' None))
       = (pending_user_responses dispatching_state)(''r1'' \<mapsto> next_future dispatching_state)"
proof -
  note T = register_unconditional [where payload = create_task_payload
      and st = dispatching_state and client_sid = "''p1''" and audio = None and t = "''t1''"]
  note A = register_unconditional [where p = "[(''question'', JStr ''ok?'')]"
      and st = dispatching_state and c = "''p1''" and au = "''QUJD''" and t = "''r1''"]
  have h1: "get_str create_task_payload ''action'' '''' \<noteq> ''''"
    by (simp add: get_str_def create_task_payload_def)
  have h2: "get_str create_task_payload ''action'' '''' \<notin> set BUILTIN_ACTIONS"
    by (simp add: get_str_def create_task_payload_def BUILTIN_ACTIONS_def)
  have h3: "connected_clients dispatching_state \<noteq> {}" by (simp add: dispatching_state_def)
  have h4: "pending_tool_calls dispatching_state ''t1'' = Some 0"
    by (simp add: dispatching_state_def)
  have h5: "next_future dispatching_state = 1" by (simp add: dispatching_state_def)
  note c = T [THEN conjunct1, THEN mp, OF conjI [OF h1 conjI [OF h2 h3]]]
  have q1: "get_str [(''question'', JStr ''ok?'')] ''question'' '''' \<noteq> ''''"
    by (simp add: get_str_def)
  have q2: "active_speech_per_client dispatching_state ''p1'' = None"
    by (simp add: dispatching_state_def)
  have q3: "''QUJD'' \<noteq> ''''" by simp
  note a = A [THEN conjunct2, THEN mp, OF conjI [OF q1 conjI [OF q2 q3]]]
  show ?thesis
    by (intro conjI h1 h2 h3 h4 h5 c [THEN conjunct1] c [THEN conjunct2, THEN conjunct1] q1 q2 q3 a [THEN conjunct2, THEN conjunct1])
qed

subsection \<open>C6: no peer connected\<close>

text \<open>
  Claim C6. A request to the action endpoint that names an action, built-in or not,
  while no client is connected, raises \<^verbatim>\<open>HTTPException(503)\<close> in its first
  segment and leaves the state as it was: no token is registered, no future is
  created, no task is suspended.
\<close>

theorem no_peer_available:
  "connected_clients st = {} \<and> get_str payload ''action'' '''' \<noteq> '''' \<longrightarrow>
     frontend_action st payload client_sid audio uuid emit_exc =
       (st, Raise (HTTPException 503 (Text ''No frontend client connected'')))
     \<and> fire (st, ts) (FrontendAction payload client_sid audio uuid emit_exc) = (st, ts)"
  by (simp add: frontend_action_def spawn_def Let_def)

theorem no_peer_available_witness:
  "connected_clients init = {} \<and> get_str create_task_payload ''action'' '''' \<noteq> ''''
   \<and> frontend_action init create_task_payload ''p1'' None ''t1'' None =
       (init, Raise (HTTPException 503 (Text ''No frontend client connected'')))
   \<and> fire (init, []) (FrontendAction create_task_payload ''p1'' None ''t1'' None) = (init, [])"
proof -
  have h1: "connected_clients init = {}" by (simp add: init_def)
  have h2: "get_str create_task_payload ''action'' '''' \<noteq> ''''"
    by (simp add: get_str_def create_task_payload_def)
  note c = no_peer_available [where st = init and payload = create_task_payload
      and client_sid = "''p1''" and audio = None and uuid = "''t1''" and emit_exc = None
      and ts = "[]", THEN mp, OF conjI [OF h1 h2]]
  show ?thesis
    by (intro conjI h1 h2 c [THEN conjunct1] c [THEN conjunct2])
qed

subsection \<open>C7: a reply within the timeout\<close>

text \<open>
  Claim C7. A dispatch that suspends awaits the future it has just registered under
  its token. When the peer's reply for that token, with \<^verbatim>\<open>success: true\<close> and a
  result \<open>r\<close>, resolves that future, the dispatching caller, once woken, returns
  exactly \<^verbatim>\<open>{success: true, data: r}\<close>, and the token is no longer registered.
\<close>

theorem reply_reaches_caller:
  "(frontend_action st0 payload client_sid audio t emit_exc = (st, Await (ToolWait t' f)) \<longrightarrow>
      t' = t \<and> pending_tool_calls st t = Some f \<and> \<not> fut_done st f)
   \<and> (pending_tool_calls st t = Some f \<and> \<not> fut_done st f
        \<and> get_token d ''toolCallId'' = Some t
        \<and> map_of d ''success'' = Some (JBool True) \<and> map_of d ''result'' = Some r \<longrightarrow>
        tool_wait_done (frontend_tool_response st sid d) t f =
          (frontend_tool_response st sid d,
           Return (JObj [(''success'', JBool True), (''data'', r)]))
        \<and> pending_tool_calls (frontend_tool_response st sid d) t = None)"
proof -
  have reg: "frontend_action st0 payload client_sid audio t emit_exc = (st, Await (ToolWait t' f)) \<longrightarrow>
      t' = t \<and> pending_tool_calls st t = Some f \<and> \<not> fut_done st f"
  proof
    assume eq: "frontend_action st0 payload client_sid audio t emit_exc = (st, Await (ToolWait t' f))"
    let ?b = "handle_builtin_action (get_str payload ''action'' '''') st0 client_sid
                (get_obj payload ''parameters'' []) audio t emit_exc"
    show "t' = t \<and> pending_tool_calls st t = Some f \<and> \<not> fut_done st f"
    proof (cases ?b)
      case None
      with eq show ?thesis
        by (auto simp: frontend_action_def Let_def new_future_def emit_def fut_done_def is_done_def
                 split: if_splits option.splits)
    next
      case (Some br)
      obtain s' r' where br: "br = (s', r')" by (cases br)
      from step_ok_builtin [OF Some] have "step_ok st0 (s', r')" by (simp add: br)
      moreover from eq Some br have "r' = Await (ToolWait t' f)"
        by (auto simp: frontend_action_def Let_def split: if_splits)
      ultimately have False
        using Some br
        by (auto simp: handle_builtin_action_def builtin_envelope_Await
                 split: if_splits prod.splits
                 dest: speak_start_cases ask_start_cases)
      then show ?thesis ..
    qed
  qed
  have res: "pending_tool_calls st t = Some f \<and> \<not> fut_done st f
        \<and> get_token d ''toolCallId'' = Some t
        \<and> map_of d ''success'' = Some (JBool True) \<and> map_of d ''result'' = Some r \<longrightarrow>
        tool_wait_done (frontend_tool_response st sid d) t f =
          (frontend_tool_response st sid d,
           Return (JObj [(''success'', JBool True), (''data'', r)]))
        \<and> pending_tool_calls (frontend_tool_response st sid d) t = None"
    by (auto simp: frontend_tool_response_def tool_wait_done_def set_result_def dict_get_def
                   Let_def)
  show ?thesis by (intro conjI reg res)
qed

theorem reply_reaches_caller_witness:
  "frontend_action (connect init ''p1'') create_task_payload ''p1'' None ''t1'' None
     = (dispatching_state, Await (ToolWait ''t1'' 0))
   \<and> pending_tool_calls dispatching_state ''t1'' = Some 0 \<and> \<not> fut_done dispatching_state 0
   \<and> get_token reply ''toolCallId'' = Some ''t1''
   \<and> map_of reply ''success'' = Some (JBool True)
   \<and> map_of reply ''result'' = Some (JObj [(''id'', JNum 7)])
   \<and> tool_wait_done (frontend_tool_response dispatching_state ''p1'' reply) ''t1'' 0 =
       (frontend_tool_response dispatching_state ''p1'' reply,
        Return (JObj [(''success'', JBool True), (''data'', JObj [(''id'', JNum 7)])]))
   \<and> pending_tool_calls (frontend_tool_response dispatching_state ''p1'' reply) ''t1'' = None"
proof -
  note T = reply_reaches_caller [where ?st0.0 = "connect init ''p1''"
      and payload = create_task_payload and client_sid = "''p1''" and audio = None
      and t = "''t1''" and emit_exc = None and st = dispatching_state and t' = "''t1''"
      and f = 0 and d = reply and r = "JObj [(''id'', JNum 7)]" and sid = "''p1''"]
  have h0: "frontend_action (connect init ''p1'') create_task_payload ''p1'' None ''t1'' None
     = (dispatching_state, Await (ToolWait ''t1'' 0))"
    by (simp add: dispatching_state_def handler_defs)
  note c1 = T [THEN conjunct1, THEN mp, OF h0, THEN conjunct2]
  have h3: "get_token reply ''toolCallId'' = Some ''t1''" by (simp add: get_token_def reply_def)
  have h4: "map_of reply ''success'' = Some (JBool True)" by (simp add: reply_def)
  have h5: "map_of reply ''result'' = Some (JObj [(''id'', JNum 7)])" by (simp add: reply_def)
  note c2 = T [THEN conjunct2, THEN mp,
      OF conjI [OF c1 [THEN conjunct1] conjI [OF c1 [THEN conjunct2] conjI [OF h3 conjI [OF h4 h5]]]]]
  show ?thesis
    by (intro conjI h0 c1 [THEN conjunct1] c1 [THEN conjunct2] h3 h4 h5
          c2 [THEN conjunct1] c2 [THEN conjunct2])
qed

subsection \<open>C8: releasing the busy guard\<close>

text \<open>
  Claim C8. The release of the busy guard is the \<^verbatim>\<open>finally\<close> block of the two
  guarded handlers. Run with an operation id that is not the holder's, it leaves the
  guard held by the holder; it clears the guard of the peer exactly when the guard
  holds the releasing operation's own id, and touches no other peer's guard. It runs
  on every exit path, and every exit path is taken. Normal completion: once its future
  has a result, the suspended operation, woken, ends in the state that the release
  leaves. Timeout: when the timeout fires on a future without a result, the operation
  ends in the state that the release leaves after the future is cancelled. Exception:
  a call that has acquired the guard and whose emit fails raises that exception out of
  the state that the release leaves, with the guard of the peer free. A call without
  \<^verbatim>\<open>wait_for_completion\<close> returns in its first segment with the guard free again.
  In general a wake that ends a guarded operation leaves the guard map as the release
  leaves it, and a call that does not suspend leaves the guard map as it found it.
\<close>

theorem guard_release_matching:
  "(active_speech_per_client st c = Some a \<and> a \<noteq> b \<longrightarrow>
      active_speech_per_client (speak_finally st c b) c = Some a
      \<and> active_speech_per_client (ask_finally st c b) c = Some a)
   \<and> active_speech_per_client (speak_finally st c b) =
        (if active_speech_per_client st c = Some b then (active_speech_per_client st)(c := None)
         else active_speech_per_client st)
   \<and> active_speech_per_client (ask_finally st c b) =
        (if active_speech_per_client st c = Some b then (active_speech_per_client st)(c := None)
         else active_speech_per_client st)
   \<and> (futures st f = Some (Finished v) \<longrightarrow>
        resume st (SpeakWait c i f m) Ready =
          (speak_finally st c i,
           Return (JObj [(''success'', JBool True), (''data'', JObj (speech_sent m i))]))
        \<and> fst (resume st (AskWait c i f q n) Ready) = ask_finally st c i
        \<and> (\<forall>k'. snd (resume st (AskWait c i f q n) Ready) \<noteq> Await k')
        \<and> (subscriptable v \<longrightarrow>
             snd (resume st (AskWait c i f q n) Ready) =
               Return (JObj [(''success'', JBool True),
                        (''data'', JObj [(''success'', JBool True), (''question'', JStr q),
                                         (''answer'', v), (''request_id'', JStr i)])])))
   \<and> ((\<forall>v. futures st f \<noteq> Some (Finished v)) \<longrightarrow>
        fst (resume st (SpeakWait c i f m) TimedOut) = speak_finally (cancel_future st f) c i
        \<and> (\<exists>r. snd (resume st (SpeakWait c i f m) TimedOut) = Return r)
        \<and> fst (resume st (AskWait c i f q n) TimedOut) = ask_finally (cancel_future st f) c i
        \<and> (\<exists>r. snd (resume st (AskWait c i f q n) TimedOut) = Return r))
   \<and> (holder k = Some (c, i) \<longrightarrow>
        (\<forall>k'. snd (resume st k TimedOut) \<noteq> Await k')
        \<and> active_speech_per_client (fst (resume st k TimedOut)) =
            (if active_speech_per_client st c = Some i then (active_speech_per_client st)(c := None)
             else active_speech_per_client st))
   \<and> (holder k = Some (c, i) \<and> snd (resume st k w) \<noteq> Await k \<longrightarrow>
        (\<forall>k'. snd (resume st k w) \<noteq> Await k')
        \<and> active_speech_per_client (fst (resume st k w)) =
            (if active_speech_per_client st c = Some i then (active_speech_per_client st)(c := None)
             else active_speech_per_client st))
   \<and> (get_str p ''message'' '''' \<noteq> '''' \<and> active_speech_per_client s0 c = None \<and> au \<noteq> '''' \<longrightarrow>
        snd (handle_speak_to_user s0 c p (Some au) i (Some e)) = Raise (PyException e)
        \<and> active_speech_per_client (fst (handle_speak_to_user s0 c p (Some au) i (Some e))) c
            = None
        \<and> pending_speech_completions (fst (handle_speak_to_user s0 c p (Some au) i (Some e))) i
            = None)
   \<and> (get_str pq ''question'' '''' \<noteq> '''' \<and> active_speech_per_client s0 c = None \<and> au \<noteq> '''' \<longrightarrow>
        snd (handle_ask_user s0 c pq (Some au) i (Some e)) = Raise (PyException e)
        \<and> active_speech_per_client (fst (handle_ask_user s0 c pq (Some au) i (Some e))) c = None
        \<and> pending_user_responses (fst (handle_ask_user s0 c pq (Some au) i (Some e))) i = None)
   \<and> (get_str p ''message'' '''' \<noteq> '''' \<and> active_speech_per_client s0 c = None \<and> au \<noteq> ''''
        \<and> \<not> get_bool p ''wait_for_completion'' True \<longrightarrow>
        (\<exists>r. snd (handle_speak_to_user s0 c p (Some au) i None) = Return r)
        \<and> active_speech_per_client (fst (handle_speak_to_user s0 c p (Some au) i None)) c = None)
   \<and> ((\<forall>k'. snd (handle_speak_to_user s0 c p ao i em) \<noteq> Await k') \<longrightarrow>
          active_speech_per_client (fst (handle_speak_to_user s0 c p ao i em))
            = active_speech_per_client s0)
   \<and> ((\<forall>k'. snd (handle_ask_user s0 c pq ao i em) \<noteq> Await k') \<longrightarrow>
          active_speech_per_client (fst (handle_ask_user s0 c pq ao i em))
            = active_speech_per_client s0)"
proof -
  have stale: "active_speech_per_client st c = Some a \<and> a \<noteq> b \<longrightarrow>
      active_speech_per_client (speak_finally st c b) c = Some a
      \<and> active_speech_per_client (ask_finally st c b) c = Some a"
    by (simp add: speak_finally_active ask_finally_active)
  have completes: "futures st f = Some (Finished v) \<longrightarrow>
        resume st (SpeakWait c i f m) Ready =
          (speak_finally st c i,
           Return (JObj [(''success'', JBool True), (''data'', JObj (speech_sent m i))]))
        \<and> fst (resume st (AskWait c i f q n) Ready) = ask_finally st c i
        \<and> (\<forall>k'. snd (resume st (AskWait c i f q n) Ready) \<noteq> Await k')
        \<and> (subscriptable v \<longrightarrow>
             snd (resume st (AskWait c i f q n) Ready) =
               Return (JObj [(''success'', JBool True),
                        (''data'', JObj [(''success'', JBool True), (''question'', JStr q),
                                         (''answer'', v), (''request_id'', JStr i)])]))"
    by (simp add: resume_def speak_wait_done_def ask_wait_done_def builtin_envelope_def
          speech_sent_def dict_get_def)
  have times_out: "(\<forall>v. futures st f \<noteq> Some (Finished v)) \<longrightarrow>
        fst (resume st (SpeakWait c i f m) TimedOut) = speak_finally (cancel_future st f) c i
        \<and> (\<exists>r. snd (resume st (SpeakWait c i f m) TimedOut) = Return r)
        \<and> fst (resume st (AskWait c i f q n) TimedOut) = ask_finally (cancel_future st f) c i
        \<and> (\<exists>r. snd (resume st (AskWait c i f q n) TimedOut) = Return r)"
    by (auto simp: resume_def speak_wait_timeout_def ask_wait_timeout_def builtin_envelope_def
             split: option.splits fut.splits)
  have exits: "holder k = Some (c, i) \<and> snd (resume st k w) \<noteq> Await k \<longrightarrow>
        (\<forall>k'. snd (resume st k w) \<noteq> Await k')
        \<and> active_speech_per_client (fst (resume st k w)) =
            (if active_speech_per_client st c = Some i then (active_speech_per_client st)(c := None)
             else active_speech_per_client st)" for w
  proof (intro impI, elim conjE)
    assume h: "holder k = Some (c, i)" and ne: "snd (resume st k w) \<noteq> Await k"
    from wake_ok_resume [of st k w] ne h
    have act: "active_speech_per_client (fst (resume st k w)) =
            (if active_speech_per_client st c = Some i then (active_speech_per_client st)(c := None)
             else active_speech_per_client st)"
      by (simp add: wake_ok_def)
    have ret: "\<forall>k'. snd (resume st k w) \<noteq> Await k'"
      using h ne
      by (cases k; cases w)
         (auto simp: resume_def speak_wait_done_def speak_wait_timeout_def ask_wait_done_def
                     ask_wait_timeout_def builtin_envelope_def
               split: option.splits fut.splits if_splits)
    from ret act show "(\<forall>k'. snd (resume st k w) \<noteq> Await k')
        \<and> active_speech_per_client (fst (resume st k w)) =
            (if active_speech_per_client st c = Some i then (active_speech_per_client st)(c := None)
             else active_speech_per_client st)" by simp
  qed
  have ends: "holder k = Some (c, i) \<longrightarrow> snd (resume st k TimedOut) \<noteq> Await k"
    by (cases k)
       (auto simp: resume_def speak_wait_timeout_def speak_wait_done_def ask_wait_timeout_def
                   ask_wait_done_def builtin_envelope_def
             split: option.splits fut.splits)
  have timeout_exits: "holder k = Some (c, i) \<longrightarrow>
        (\<forall>k'. snd (resume st k TimedOut) \<noteq> Await k')
        \<and> active_speech_per_client (fst (resume st k TimedOut)) =
            (if active_speech_per_client st c = Some i then (active_speech_per_client st)(c := None)
             else active_speech_per_client st)"
    using exits [of TimedOut] ends by blast
  have spx: "get_str p ''message'' '''' \<noteq> '''' \<and> active_speech_per_client s0 c = None \<and> au \<noteq> '''' \<longrightarrow>
        snd (handle_speak_to_user s0 c p (Some au) i (Some e)) = Raise (PyException e)
        \<and> active_speech_per_client (fst (handle_speak_to_user s0 c p (Some au) i (Some e))) c
            = None
        \<and> pending_speech_completions (fst (handle_speak_to_user s0 c p (Some au) i (Some e))) i
            = None"
    by (auto simp: handle_speak_to_user_def speak_finally_def new_future_def Let_def
             split: prod.splits)
  have asx: "get_str pq ''question'' '''' \<noteq> '''' \<and> active_speech_per_client s0 c = None \<and> au \<noteq> '''' \<longrightarrow>
        snd (handle_ask_user s0 c pq (Some au) i (Some e)) = Raise (PyException e)
        \<and> active_speech_per_client (fst (handle_ask_user s0 c pq (Some au) i (Some e))) c = None
        \<and> pending_user_responses (fst (handle_ask_user s0 c pq (Some au) i (Some e))) i = None"
    by (auto simp: handle_ask_user_def ask_finally_def new_future_def Let_def
             split: prod.splits)
  have nowait: "get_str p ''message'' '''' \<noteq> '''' \<and> active_speech_per_client s0 c = None \<and> au \<noteq> ''''
        \<and> \<not> get_bool p ''wait_for_completion'' True \<longrightarrow>
        (\<exists>r. snd (handle_speak_to_user s0 c p (Some au) i None) = Return r)
        \<and> active_speech_per_client (fst (handle_speak_to_user s0 c p (Some au) i None)) c = None"
    by (auto simp: handle_speak_to_user_def speak_finally_def emit_def Let_def)
  have sp: "(\<forall>k'. snd (handle_speak_to_user s0 c p ao i em) \<noteq> Await k') \<longrightarrow>
          active_speech_per_client (fst (handle_speak_to_user s0 c p ao i em))
            = active_speech_per_client s0"
    using speak_start_cases [of s0 c p ao i em "fst (handle_speak_to_user s0 c p ao i em)"
             "snd (handle_speak_to_user s0 c p ao i em)"] by auto
  have as: "(\<forall>k'. snd (handle_ask_user s0 c pq ao i em) \<noteq> Await k') \<longrightarrow>
          active_speech_per_client (fst (handle_ask_user s0 c pq ao i em))
            = active_speech_per_client s0"
    using ask_start_cases [of s0 c pq ao i em "fst (handle_ask_user s0 c pq ao i em)"
             "snd (handle_ask_user s0 c pq ao i em)"] by auto
  show ?thesis
    by (intro conjI stale speak_finally_active ask_finally_active completes times_out
          timeout_exits exits spx asx nowait sp as)
qed

theorem guard_release_matching_witness:
  "active_speech_per_client speaking_state ''p1'' = Some ''s1'' \<and> ''s1'' \<noteq> ''zz''
   \<and> active_speech_per_client (speak_finally speaking_state ''p1'' ''zz'') ''p1'' = Some ''s1''
   \<and> active_speech_per_client (ask_finally speaking_state ''p1'' ''zz'') ''p1'' = Some ''s1''
   \<and> active_speech_per_client (speak_finally speaking_state ''p1'' ''s1'') ''p1'' = None
   \<and> futures (fst (handle_speech_completion speaking_state ''s1'')) 0 = Some (Finished (JBool True))
   \<and> resume (fst (handle_speech_completion speaking_state ''s1''))
        (SpeakWait ''p1'' ''s1'' 0 ''hi'') Ready =
       (speak_finally (fst (handle_speech_completion speaking_state ''s1'')) ''p1'' ''s1'',
        Return (JObj [(''success'', JBool True), (''data'', JObj (speech_sent ''hi'' ''s1''))]))
   \<and> active_speech_per_client
        (speak_finally (fst (handle_speech_completion speaking_state ''s1'')) ''p1'' ''s1'') ''p1''
       = None
   \<and> futures (fst (handle_user_response asking_state ''r1'' (JStr ''yes''))) 0
       = Some (Finished (JStr ''yes''))
   \<and> subscriptable (JStr ''yes'')
   \<and> fst (resume (fst (handle_user_response asking_state ''r1'' (JStr ''yes'')))
             (AskWait ''p1'' ''r1'' 0 ''ok?'' 30) Ready)
       = ask_finally (fst (handle_user_response asking_state ''r1'' (JStr ''yes''))) ''p1'' ''r1''
   \<and> snd (resume (fst (handle_user_response asking_state ''r1'' (JStr ''yes'')))
             (AskWait ''p1'' ''r1'' 0 ''ok?'' 30) Ready)
       = Return (JObj [(''success'', JBool True),
                  (''data'', JObj [(''success'', JBool True), (''question'', JStr ''ok?''),
                                   (''answer'', JStr ''yes''), (''request_id'', JStr ''r1'')])])
   \<and> active_speech_per_client
        (ask_finally (fst (handle_user_response asking_state ''r1'' (JStr ''yes''))) ''p1'' ''r1'')
        ''p1'' = None
   \<and> (\<forall>v. futures speaking_state 0 \<noteq> Some (Finished v))
   \<and> fst (resume speaking_state (SpeakWait ''p1'' ''s1'' 0 ''hi'') TimedOut)
       = speak_finally (cancel_future speaking_state 0) ''p1'' ''s1''
   \<and> (\<exists>r. snd (resume speaking_state (SpeakWait ''p1'' ''s1'' 0 ''hi'') TimedOut) = Return r)
   \<and> active_speech_per_client
        (fst (resume speaking_state (SpeakWait ''p1'' ''s1'' 0 ''hi'') TimedOut)) ''p1'' = None
   \<and> (\<forall>v. futures asking_state 0 \<noteq> Some (Finished v))
   \<and> fst (resume asking_state (AskWait ''p1'' ''r1'' 0 ''ok?'' 30) TimedOut)
       = ask_finally (cancel_future asking_state 0) ''p1'' ''r1''
   \<and> (\<exists>r. snd (resume asking_state (AskWait ''p1'' ''r1'' 0 ''ok?'' 30) TimedOut) = Return r)
   \<and> holder (AskWait ''p1'' ''r1'' 0 ''ok?'' 30) = Some (''p1'', ''r1'')
   \<and> active_speech_per_client asking_state ''p1'' = Some ''r1''
   \<and> active_speech_per_client
        (fst (resume asking_state (AskWait ''p1'' ''r1'' 0 ''ok?'' 30) TimedOut)) ''p1'' = None
   \<and> get_str [(''message'', JStr ''hi'')] ''message'' '''' \<noteq> ''''
   \<and> active_speech_per_client (connect init ''p1'') ''p1'' = None
   \<and> ''QUJD'' \<noteq> ''''
   \<and> snd (handle_speak_to_user (connect init ''p1'') ''p1'' [(''message'', JStr ''hi'')]
          (Some ''QUJD'') ''s1'' (Some ''boom'')) = Raise (PyException ''boom'')
   \<and> active_speech_per_client
        (fst (handle_speak_to_user (connect init ''p1'') ''p1'' [(''message'', JStr ''hi'')]
               (Some ''QUJD'') ''s1'' (Some ''boom''))) ''p1'' = None
   \<and> get_str [(''question'', JStr ''ok?'')] ''question'' '''' \<noteq> ''''
   \<and> snd (handle_ask_user (connect init ''p1'') ''p1'' [(''question'', JStr ''ok?'')]
          (Some ''QUJD'') ''r1'' (Some ''boom'')) = Raise (PyException ''boom'')
   \<and> active_speech_per_client
        (fst (handle_ask_user (connect init ''p1'') ''p1'' [(''question'', JStr ''ok?'')]
               (Some ''QUJD'') ''r1'' (Some ''boom''))) ''p1'' = None"
proof -
  let ?S = speaking_state and ?A = asking_state and ?I = "connect init ''p1''"
  let ?S' = "fst (handle_speech_completion speaking_state ''s1'')"
  let ?A' = "fst (handle_user_response asking_state ''r1'' (JStr ''yes''))"
  let ?ks = "SpeakWait ''p1'' ''s1'' 0 ''hi''"
  let ?ka = "AskWait ''p1'' ''r1'' 0 ''ok?'' 30"
  note stale = guard_release_matching [where st = ?S and c = "''p1''" and a = "''s1''"
      and b = "''zz''"]
  note own = guard_release_matching [where st = ?S and c = "''p1''" and b = "''s1''"
      and f = 0 and i = "''s1''" and m = "''hi''" and k = ?ks]
  note S' = guard_release_matching [where st = ?S' and c = "''p1''" and b = "''s1''"
      and f = 0 and v = "JBool True" and i = "''s1''" and m = "''hi''"]
  note A' = guard_release_matching [where st = ?A' and c = "''p1''" and b = "''r1''"
      and f = 0 and v = "JStr ''yes''" and i = "''r1''" and q = "''ok?''" and n = 30]
  note A = guard_release_matching [where st = ?A and c = "''p1''" and f = 0 and i = "''r1''"
      and q = "''ok?''" and n = 30 and k = ?ka]
  note X = guard_release_matching [where ?s0.0 = ?I and c = "''p1''"
      and p = "[(''message'', JStr ''hi'')]" and pq = "[(''question'', JStr ''ok?'')]"
      and au = "''QUJD''" and e = "''boom''" and i = "''s1''"]
  note Xq = guard_release_matching [where ?s0.0 = ?I and c = "''p1''"
      and pq = "[(''question'', JStr ''ok?'')]"
      and au = "''QUJD''" and e = "''boom''" and i = "''r1''"]
  have g: "active_speech_per_client ?S ''p1'' = Some ''s1''" by (simp add: speaking_state_def)
  have ne: "''s1'' \<noteq> ''zz''" by simp
  note c1 = stale [THEN conjunct1, THEN mp, OF conjI [OF g ne]]
  have c2: "active_speech_per_client (speak_finally ?S ''p1'' ''s1'') ''p1'' = None"
    using g by (simp add: own [THEN conjunct2, THEN conjunct1])
  have f1: "futures ?S' 0 = Some (Finished (JBool True))"
    by (simp add: handle_speech_completion_def speaking_state_def fut_done_def is_done_def
          set_result_def)
  note d1 = S' [THEN conjunct2, THEN conjunct2, THEN conjunct2, THEN conjunct1, THEN mp, OF f1, THEN conjunct1]
  have g': "active_speech_per_client ?S' ''p1'' = Some ''s1''"
    by (simp add: handle_speech_completion_def speaking_state_def fut_done_def is_done_def
          set_result_def)
  have d2: "active_speech_per_client (speak_finally ?S' ''p1'' ''s1'') ''p1'' = None"
    using g' by (simp add: S' [THEN conjunct2, THEN conjunct1])
  have f2: "futures ?A' 0 = Some (Finished (JStr ''yes''))"
    by (simp add: handle_user_response_def asking_state_def fut_done_def is_done_def
          set_result_def)
  have sub: "subscriptable (JStr ''yes'')" by simp
  note a1 = A' [THEN conjunct2, THEN conjunct2, THEN conjunct2, THEN conjunct1, THEN mp, OF f2, THEN conjunct2]
  note a2 = a1 [THEN conjunct2, THEN conjunct2, THEN mp, OF sub]
  have ga': "active_speech_per_client ?A' ''p1'' = Some ''r1''"
    by (simp add: handle_user_response_def asking_state_def fut_done_def is_done_def
          set_result_def)
  have a3: "active_speech_per_client (ask_finally ?A' ''p1'' ''r1'') ''p1'' = None"
    using ga' by (simp add: A' [THEN conjunct2, THEN conjunct2, THEN conjunct1])
  have ts: "\<forall>v. futures ?S 0 \<noteq> Some (Finished v)" by (simp add: speaking_state_def)
  note t1 = own [THEN conjunct2, THEN conjunct2, THEN conjunct2, THEN conjunct2, THEN conjunct1, THEN mp, OF ts]
  have hs: "holder ?ks = Some (''p1'', ''s1'')" by simp
  note t2 = own [THEN conjunct2, THEN conjunct2, THEN conjunct2, THEN conjunct2, THEN conjunct2, THEN conjunct1, THEN mp, OF hs, THEN conjunct2]
  have t3: "active_speech_per_client (fst (resume ?S ?ks TimedOut)) ''p1'' = None"
    using g by (simp add: t2)
  have ta: "\<forall>v. futures ?A 0 \<noteq> Some (Finished v)" by (simp add: asking_state_def)
  note u1 = A [THEN conjunct2, THEN conjunct2, THEN conjunct2, THEN conjunct2, THEN conjunct1, THEN mp, OF ta, THEN conjunct2, THEN conjunct2]
  have ha: "holder ?ka = Some (''p1'', ''r1'')" by simp
  have ga: "active_speech_per_client ?A ''p1'' = Some ''r1''" by (simp add: asking_state_def)
  note u2 = A [THEN conjunct2, THEN conjunct2, THEN conjunct2, THEN conjunct2, THEN conjunct2, THEN conjunct1, THEN mp, OF ha, THEN conjunct2]
  have u3: "active_speech_per_client (fst (resume ?A ?ka TimedOut)) ''p1'' = None"
    using ga by (simp add: u2)
  have m: "get_str [(''message'', JStr ''hi'')] ''message'' '''' \<noteq> ''''"
    by (simp add: get_str_def)
  have q: "get_str [(''question'', JStr ''ok?'')] ''question'' '''' \<noteq> ''''"
    by (simp add: get_str_def)
  have free: "active_speech_per_client ?I ''p1'' = None"
    by (simp add: connect_def init_def emit_def)
  have au: "''QUJD'' \<noteq> ''''" by simp
  note x1 = X [THEN conjunct2, THEN conjunct2, THEN conjunct2, THEN conjunct2, THEN conjunct2, THEN conjunct2, THEN conjunct2, THEN conjunct1, THEN mp, OF conjI [OF m conjI [OF free au]]]
  note x2 = Xq [THEN conjunct2, THEN conjunct2, THEN conjunct2, THEN conjunct2, THEN conjunct2, THEN conjunct2, THEN conjunct2, THEN conjunct2, THEN conjunct1, THEN mp, OF conjI [OF q conjI [OF free au]]]
  show ?thesis
    by (intro conjI g ne c1 [THEN conjunct1] c1 [THEN conjunct2] c2 f1 d1 d2 f2 sub
          a1 [THEN conjunct1] a2 a3 ts t1 [THEN conjunct1] t1 [THEN conjunct2, THEN conjunct1] t3
          ta u1 [THEN conjunct1] u1 [THEN conjunct2] ha ga u3 m free au
          x1 [THEN conjunct1] x1 [THEN conjunct2, THEN conjunct1] q
          x2 [THEN conjunct1] x2 [THEN conjunct2, THEN conjunct1])
qed
subsection \<open>C9: the processing lock\<close>

text \<open>
  Claim C9. A turn request, a \<^verbatim>\<open>user_prompt\<close> event that carries a prompt,
  that finds the processing lock of its peer held returns in its first segment: it starts no turn (it does not suspend, and the lock map is as it
  was) and sends the peer the \<^verbatim>\<open>agent_busy\<close> event, not an error response. A
  prompt that starts a turn suspends with the lock of its peer held, so a second prompt
  of the peer arriving before the turn has ended is rejected in that way. Every way
  out of the turn releases the lock: each wake of the turn either carries it to its
  next await with the lock map unchanged, or ends it with the lock of the peer
  released, whether the executor call came back with a result or with an exception;
  and a turn that ends in its first segment (no agent configured, client creation
  failed) ends with the lock released too. And every such way out is taken: a failed
  invocation ends the turn, a successful one carries it to the reading of the body,
  and the reading of the body, whether it gives the response or raises, ends the turn,
  each time with the lock of the peer set to \<^verbatim>\<open>False\<close>; a first segment that
  finds no agent configured or cannot create its client ends there with the lock
  released, and otherwise suspends with the lock held.
\<close>

theorem turn_lock_rejects_and_releases:
  "(agent_processing_lock st sid = Some True \<and> get_str data ''prompt'' '''' \<noteq> '''' \<longrightarrow>
      user_prompt st sid data fresh now arn ce =
        (emit st ''agent_busy''
           (JObj [(''message'', JStr ''Agent is currently processing. Please wait...'')]) sid,
         Return JNull)
      \<and> agent_processing_lock (fst (user_prompt st sid data fresh now arn ce))
          = agent_processing_lock st
      \<and> fire (st, ts) (UserPrompt sid data fresh now arn ce)
          = (fst (user_prompt st sid data fresh now arn ce), ts))
   \<and> (user_prompt s0 sid data fresh now arn ce = (s1, Await k) \<longrightarrow>
        k = TurnInvoke sid \<and> agent_processing_lock s1 sid = Some True
        \<and> (get_str data2 ''prompt'' '''' \<noteq> '''' \<longrightarrow>
             snd (user_prompt s1 sid data2 fresh2 now2 arn2 ce2) = Return JNull
             \<and> fire (s1, ts) (UserPrompt sid data2 fresh2 now2 arn2 ce2)
                 = (fst (user_prompt s1 sid data2 fresh2 now2 arn2 ce2), ts)))
   \<and> (k' \<in> {TurnInvoke sid, TurnRead sid} \<and> snd (resume st k' w) \<noteq> Await k' \<longrightarrow>
        (snd (resume st k' w) = Await (TurnRead sid)
           \<and> agent_processing_lock (fst (resume st k' w)) = agent_processing_lock st)
        \<or> (snd (resume st k' w) = Return JNull
           \<and> agent_processing_lock (fst (resume st k' w)) sid = Some False))
   \<and> (get_str data ''prompt'' '''' \<noteq> '''' \<and> agent_processing_lock s0 sid \<noteq> Some True
        \<and> (\<forall>k. snd (user_prompt s0 sid data fresh now arn ce) \<noteq> Await k) \<longrightarrow>
        agent_processing_lock (fst (user_prompt s0 sid data fresh now arn ce)) sid = Some False)
   \<and> resume st (TurnInvoke sid) (Invoked None) = (st, Await (TurnRead sid))
   \<and> snd (resume st (TurnInvoke sid) (Invoked (Some e))) = Return JNull
   \<and> agent_processing_lock (fst (resume st (TurnInvoke sid) (Invoked (Some e)))) sid = Some False
   \<and> snd (resume st (TurnRead sid) (ReadBody body rnow)) = Return JNull
   \<and> agent_processing_lock (fst (resume st (TurnRead sid) (ReadBody body rnow))) sid = Some False
   \<and> (get_str data ''prompt'' '''' \<noteq> '''' \<and> agent_processing_lock s0 sid \<noteq> Some True
        \<and> (arn \<in> {None, Some ''''} \<or> ce \<noteq> None) \<longrightarrow>
        snd (user_prompt s0 sid data fresh now arn ce) = Return JNull
        \<and> agent_processing_lock (fst (user_prompt s0 sid data fresh now arn ce)) sid = Some False)
   \<and> (get_str data ''prompt'' '''' \<noteq> '''' \<and> agent_processing_lock s0 sid \<noteq> Some True
        \<and> arn \<notin> {None, Some ''''} \<and> ce = None \<longrightarrow>
        snd (user_prompt s0 sid data fresh now arn ce) = Await (TurnInvoke sid)
        \<and> agent_processing_lock (fst (user_prompt s0 sid data fresh now arn ce)) sid = Some True)"
proof -
  have lock_except: "agent_processing_lock (fst (turn_except s x e)) x = Some False" for s x e
    by (simp add: turn_except_def turn_finally_def emit_def)
  have lock_session: "agent_processing_lock (fst (get_or_create_session s x f n)) = agent_processing_lock s"
    for s x f n
    by (auto simp: get_or_create_session_def get_session_def create_session_def
             split: option.splits prod.splits)
  have busy: "agent_processing_lock st sid = Some True \<and> get_str data ''prompt'' '''' \<noteq> '''' \<longrightarrow>
      user_prompt st sid data fresh now arn ce =
        (emit st ''agent_busy''
           (JObj [(''message'', JStr ''Agent is currently processing. Please wait...'')]) sid,
         Return JNull)
      \<and> agent_processing_lock (fst (user_prompt st sid data fresh now arn ce))
          = agent_processing_lock st
      \<and> fire (st, ts) (UserPrompt sid data fresh now arn ce)
          = (fst (user_prompt st sid data fresh now arn ce), ts)"
    by (simp add: user_prompt_def Let_def emit_def spawn_def)
  have starts: "user_prompt s0 sid data fresh now arn ce = (s1, Await k) \<longrightarrow>
        k = TurnInvoke sid \<and> agent_processing_lock s1 sid = Some True"
  proof
    assume eq: "user_prompt s0 sid data fresh now arn ce = (s1, Await k)"
    let ?g = "get_or_create_session
                (s0\<lparr>agent_processing_lock := (agent_processing_lock s0)(sid \<mapsto> True)\<rparr>)
                sid fresh now"
    have te: "turn_except s x e \<noteq> (s', Await k'')" for s x e s' k''
      by (simp add: turn_except_def)
    from eq have "k = TurnInvoke sid \<and> s1 = fst ?g"
      by (auto simp: user_prompt_def Let_def te split: if_splits option.splits prod.splits)
    then show "k = TurnInvoke sid \<and> agent_processing_lock s1 sid = Some True"
      by (simp add: lock_session)
  qed
  have twice: "user_prompt s0 sid data fresh now arn ce = (s1, Await k) \<longrightarrow>
        k = TurnInvoke sid \<and> agent_processing_lock s1 sid = Some True
        \<and> (get_str data2 ''prompt'' '''' \<noteq> '''' \<longrightarrow>
             snd (user_prompt s1 sid data2 fresh2 now2 arn2 ce2) = Return JNull
             \<and> fire (s1, ts) (UserPrompt sid data2 fresh2 now2 arn2 ce2)
                 = (fst (user_prompt s1 sid data2 fresh2 now2 arn2 ce2), ts))"
    using starts by (auto simp: user_prompt_def Let_def spawn_def)
  have exits: "k' \<in> {TurnInvoke sid, TurnRead sid} \<and> snd (resume st k' w) \<noteq> Await k' \<longrightarrow>
        (snd (resume st k' w) = Await (TurnRead sid)
           \<and> agent_processing_lock (fst (resume st k' w)) = agent_processing_lock st)
        \<or> (snd (resume st k' w) = Return JNull
           \<and> agent_processing_lock (fst (resume st k' w)) sid = Some False)"
    by (cases w)
       (auto simp: resume_def turn_invoked_def turn_read_def turn_except_snd lock_except
                   turn_finally_def emit_def Let_def
             split: option.splits sum.splits)
  have first: "get_str data ''prompt'' '''' \<noteq> '''' \<and> agent_processing_lock s0 sid \<noteq> Some True
        \<and> (\<forall>k. snd (user_prompt s0 sid data fresh now arn ce) \<noteq> Await k) \<longrightarrow>
        agent_processing_lock (fst (user_prompt s0 sid data fresh now arn ce)) sid = Some False"
    by (auto simp: user_prompt_def Let_def lock_except split: option.splits prod.splits)
  have invoked: "resume st (TurnInvoke sid) (Invoked None) = (st, Await (TurnRead sid))"
    by (simp add: resume_def turn_invoked_def)
  have failed: "snd (resume st (TurnInvoke sid) (Invoked (Some e))) = Return JNull"
    by (simp add: resume_def turn_invoked_def turn_except_snd)
  have failed_lock:
    "agent_processing_lock (fst (resume st (TurnInvoke sid) (Invoked (Some e)))) sid = Some False"
    by (simp add: resume_def turn_invoked_def lock_except)
  have read: "snd (resume st (TurnRead sid) (ReadBody body rnow)) = Return JNull"
    by (cases body) (simp_all add: resume_def turn_read_def turn_except_snd Let_def)
  have read_lock:
    "agent_processing_lock (fst (resume st (TurnRead sid) (ReadBody body rnow))) sid = Some False"
    by (cases body)
       (simp_all add: resume_def turn_read_def lock_except turn_finally_def emit_def Let_def)
  have early: "get_str data ''prompt'' '''' \<noteq> '''' \<and> agent_processing_lock s0 sid \<noteq> Some True
        \<and> (arn \<in> {None, Some ''''} \<or> ce \<noteq> None) \<longrightarrow>
        snd (user_prompt s0 sid data fresh now arn ce) = Return JNull
        \<and> agent_processing_lock (fst (user_prompt s0 sid data fresh now arn ce)) sid = Some False"
    by (auto simp: user_prompt_def Let_def lock_except turn_except_snd
             split: option.splits prod.splits)
  have started: "get_str data ''prompt'' '''' \<noteq> '''' \<and> agent_processing_lock s0 sid \<noteq> Some True
        \<and> arn \<notin> {None, Some ''''} \<and> ce = None \<longrightarrow>
        snd (user_prompt s0 sid data fresh now arn ce) = Await (TurnInvoke sid)
        \<and> agent_processing_lock (fst (user_prompt s0 sid data fresh now arn ce)) sid = Some True"
  proof
    assume h: "get_str data ''prompt'' '''' \<noteq> '''' \<and> agent_processing_lock s0 sid \<noteq> Some True
        \<and> arn \<notin> {None, Some ''''} \<and> ce = None"
    let ?g = "get_or_create_session
                (s0\<lparr>agent_processing_lock := (agent_processing_lock s0)(sid \<mapsto> True)\<rparr>)
                sid fresh now"
    from h have "user_prompt s0 sid data fresh now arn ce = (fst ?g, Await (TurnInvoke sid))"
      by (auto simp: user_prompt_def Let_def split: option.splits prod.splits)
    then show "snd (user_prompt s0 sid data fresh now arn ce) = Await (TurnInvoke sid)
        \<and> agent_processing_lock (fst (user_prompt s0 sid data fresh now arn ce)) sid = Some True"
      by (simp add: lock_session)
  qed
  show ?thesis
    by (intro conjI busy twice exits first invoked failed failed_lock read read_lock early
          started)
qed


theorem turn_lock_rejects_and_releases_witness:
  "user_prompt (connect init ''p1'') ''p1'' [(''prompt'', JStr ''hello'')] ''sess1'' 1
       (Some ''arn'') None = (turning_state, Await (TurnInvoke ''p1''))
   \<and> agent_processing_lock turning_state ''p1'' = Some True
   \<and> get_str [(''prompt'', JStr ''again'')] ''prompt'' '''' \<noteq> ''''
   \<and> user_prompt turning_state ''p1'' [(''prompt'', JStr ''again'')] ''sess2'' 2 (Some ''arn'') None
       = (emit turning_state ''agent_busy''
            (JObj [(''message'', JStr ''Agent is currently processing. Please wait...'')]) ''p1'',
          Return JNull)
   \<and> agent_processing_lock
        (fst (user_prompt turning_state ''p1'' [(''prompt'', JStr ''again'')] ''sess2'' 2
                (Some ''arn'') None)) = agent_processing_lock turning_state
   \<and> fire (turning_state, [TurnInvoke ''p1''])
        (UserPrompt ''p1'' [(''prompt'', JStr ''again'')] ''sess2'' 2 (Some ''arn'') None)
       = (fst (user_prompt turning_state ''p1'' [(''prompt'', JStr ''again'')] ''sess2'' 2
                 (Some ''arn'') None), [TurnInvoke ''p1''])
   \<and> snd (resume turning_state (TurnInvoke ''p1'') (Invoked (Some ''boom''))) = Return JNull
   \<and> agent_processing_lock
        (fst (resume turning_state (TurnInvoke ''p1'') (Invoked (Some ''boom'')))) ''p1''
       = Some False
   \<and> get_str [(''prompt'', JStr ''hello'')] ''prompt'' '''' \<noteq> ''''
   \<and> agent_processing_lock (connect init ''p1'') ''p1'' \<noteq> Some True
   \<and> snd (user_prompt (connect init ''p1'') ''p1'' [(''prompt'', JStr ''hello'')] ''sess1'' 1
            None None) = Return JNull
   \<and> agent_processing_lock
        (fst (user_prompt (connect init ''p1'') ''p1'' [(''prompt'', JStr ''hello'')] ''sess1'' 1
                None None)) ''p1'' = Some False
   \<and> resume turning_state (TurnInvoke ''p1'') (Invoked None)
       = (turning_state, Await (TurnRead ''p1''))
   \<and> snd (resume turning_state (TurnRead ''p1'') (ReadBody (Inr (JObj [(''text'', JStr ''done'')])) 3))
       = Return JNull
   \<and> agent_processing_lock
        (fst (resume turning_state (TurnRead ''p1'')
                (ReadBody (Inr (JObj [(''text'', JStr ''done'')])) 3))) ''p1'' = Some False
   \<and> snd (resume turning_state (TurnRead ''p1'') (ReadBody (Inl ''bad json'') 3)) = Return JNull
   \<and> agent_processing_lock
        (fst (resume turning_state (TurnRead ''p1'') (ReadBody (Inl ''bad json'') 3))) ''p1''
       = Some False
   \<and> (Some ''arn'' :: string option) \<notin> {None, Some []}
   \<and> snd (user_prompt (connect init ''p1'') ''p1'' [(''prompt'', JStr ''hello'')] ''sess1'' 1
            (Some ''arn'') None) = Await (TurnInvoke ''p1'')
   \<and> agent_processing_lock
        (fst (user_prompt (connect init ''p1'') ''p1'' [(''prompt'', JStr ''hello'')] ''sess1'' 1
                (Some ''arn'') None)) ''p1'' = Some True"
proof -
  let ?k = "TurnInvoke ''p1''"
  let ?w = "Invoked (Some ''boom'')"
  note B = turn_lock_rejects_and_releases [where st = turning_state and sid = "''p1''"
      and data = "[(''prompt'', JStr ''again'')]" and fresh = "''sess2''" and now = 2
      and arn = "Some ''arn''" and ce = None and ts = "[TurnInvoke ''p1'']"]
  note S = turn_lock_rejects_and_releases [where ?s0.0 = "connect init ''p1''" and sid = "''p1''"
      and data = "[(''prompt'', JStr ''hello'')]" and fresh = "''sess1''" and now = 1
      and arn = "Some ''arn''" and ce = None and ?s1.0 = turning_state and k = ?k]
  note X = turn_lock_rejects_and_releases [where st = turning_state and sid = "''p1''"
      and k' = ?k and w = ?w]
  note F = turn_lock_rejects_and_releases [where ?s0.0 = "connect init ''p1''" and sid = "''p1''"
      and data = "[(''prompt'', JStr ''hello'')]" and fresh = "''sess1''" and now = 1
      and arn = None and ce = None]
  have h1: "user_prompt (connect init ''p1'') ''p1'' [(''prompt'', JStr ''hello'')] ''sess1'' 1
       (Some ''arn'') None = (turning_state, Await ?k)"
    by (simp add: user_prompt_def turning_state_def get_or_create_session_def get_session_def
          create_session_def handler_defs)
  note c1 = S [THEN conjunct2, THEN conjunct1, THEN mp, OF h1, THEN conjunct2, THEN conjunct1]
  have h2: "get_str [(''prompt'', JStr ''again'')] ''prompt'' '''' \<noteq> ''''"
    by (simp add: get_str_def)
  note c2 = B [THEN conjunct1, THEN mp, OF conjI [OF c1 h2]]
  have x1: "snd (resume turning_state ?k ?w) = Return JNull"
    by (simp add: resume_def turn_invoked_def turn_except_def)
  have x2: "?k \<in> {TurnInvoke ''p1'', TurnRead ''p1''} \<and> snd (resume turning_state ?k ?w) \<noteq> Await ?k"
    by (simp add: x1)
  note x3 = X [THEN conjunct2, THEN conjunct2, THEN conjunct1, THEN mp, OF x2]
  have c3: "agent_processing_lock (fst (resume turning_state ?k ?w)) ''p1'' = Some False"
    using x3 by (simp add: x1)
  have h3: "get_str [(''prompt'', JStr ''hello'')] ''prompt'' '''' \<noteq> ''''"
    by (simp add: get_str_def)
  have h4: "agent_processing_lock (connect init ''p1'') ''p1'' \<noteq> Some True"
    by (simp add: connect_def init_def emit_def)
  have h5: "snd (user_prompt (connect init ''p1'') ''p1'' [(''prompt'', JStr ''hello'')] ''sess1'' 1
            None None) = Return JNull"
    by (simp add: user_prompt_def get_or_create_session_def get_session_def
          create_session_def turn_except_def handler_defs)
  have h6: "\<forall>k. snd (user_prompt (connect init ''p1'') ''p1'' [(''prompt'', JStr ''hello'')] ''sess1'' 1
            None None) \<noteq> Await k"
    by (simp add: h5)
  note c4 = F [THEN conjunct2, THEN conjunct2, THEN conjunct2, THEN conjunct1, THEN mp, OF conjI [OF h3 conjI [OF h4 h6]]]
  note R = turn_lock_rejects_and_releases [where st = turning_state and sid = "''p1''"
      and body = "Inr (JObj [(''text'', JStr ''done'')])" and rnow = 3 and e = "''boom''"]
  note R' = turn_lock_rejects_and_releases [where st = turning_state and sid = "''p1''"
      and body = "Inl ''bad json''" and rnow = 3]
  have h7: "(Some ''arn'' :: string option) \<notin> {None, Some []}" by simp
  have h8: "(None :: string option) = None" by simp
  note c5 = S [THEN conjunct2, THEN conjunct2, THEN conjunct2, THEN conjunct2, THEN conjunct2, THEN conjunct2, THEN conjunct2, THEN conjunct2, THEN conjunct2, THEN conjunct2, THEN mp, OF conjI [OF h3 conjI [OF h4 conjI [OF h7 h8]]]]
  show ?thesis
    by (intro conjI h1 c1 h2 c2 [THEN conjunct1] c2 [THEN conjunct2, THEN conjunct1]
          c2 [THEN conjunct2, THEN conjunct2] x1 c3 h3 h4 h5 c4
          R [THEN conjunct2, THEN conjunct2, THEN conjunct2, THEN conjunct2, THEN conjunct1] R [THEN conjunct2, THEN conjunct2, THEN conjunct2, THEN conjunct2, THEN conjunct2, THEN conjunct2, THEN conjunct2, THEN conjunct1] R [THEN conjunct2, THEN conjunct2, THEN conjunct2, THEN conjunct2, THEN conjunct2, THEN conjunct2, THEN conjunct2, THEN conjunct2, THEN conjunct1] R' [THEN conjunct2, THEN conjunct2, THEN conjunct2, THEN conjunct2, THEN conjunct2, THEN conjunct2, THEN conjunct2, THEN conjunct1] R' [THEN conjunct2, THEN conjunct2, THEN conjunct2, THEN conjunct2, THEN conjunct2, THEN conjunct2, THEN conjunct2, THEN conjunct2, THEN conjunct1] h7
          c5 [THEN conjunct1] c5 [THEN conjunct2])
qed
subsection \<open>C10: an empty answer\<close>

text \<open>
  Claim C10. A \<^verbatim>\<open>user_response\<close> event whose response is the empty string, or is
  absent, is dropped, also when its request id is registered and pending: the handler
  does not call \<^verbatim>\<open>handle_user_response\<close>, the state stays as it was and no task
  changes. So the future of the question is still pending, the waiting
  \<^verbatim>\<open>ask_user\<close> stays suspended when the loop looks at it, and when its timeout
  fires it returns the failure \<^verbatim>\<open>User did not respond within <timeout> seconds\<close>,
  which the endpoint wraps with \<^verbatim>\<open>success: False\<close>; the empty answer reaches
  nobody. It is the emptiness that drops the event: under the same request id a
  response that can be sliced and is true in Python's sense, a non-empty string among
  them, is stored as the result of the future.
\<close>

theorem empty_answer_dropped:
  "(dict_get data ''request_id'' JNull = JStr t \<and> pending_user_responses st t = Some f
    \<and> futures st f = Some Pending \<and> map_of data ''response'' \<in> {None, Some (JStr '''')} \<longrightarrow>
     user_response st sid data = (st, Return JNull)
     \<and> fst (user_response st sid data) \<noteq> fst (handle_user_response st t (JStr ''''))
     \<and> fire (st, ts) (UserResponse sid data) = (st, ts)
     \<and> resume (fst (user_response st sid data)) (AskWait c t f q n) Ready
         = (st, Await (AskWait c t f q n))
     \<and> snd (ask_wait_timeout (fst (user_response st sid data)) c t f q n) =
         Return (JObj [(''success'', JBool False),
                       (''error'', JStr (''User did not respond within '' @ str_int n
                                         @ '' seconds'')),
                       (''question'', JStr q)])
     \<and> snd (resume (fst (user_response st sid data)) (AskWait c t f q n) TimedOut) =
         Return (JObj [(''success'', JBool False),
                  (''data'', JObj [(''success'', JBool False),
                       (''error'', JStr (''User did not respond within '' @ str_int n
                                         @ '' seconds'')),
                       (''question'', JStr q)])]))
   \<and> (dict_get data ''request_id'' JNull = JStr t \<and> t \<noteq> '''' \<and> pending_user_responses st t = Some f
       \<and> futures st f = Some Pending \<and> map_of data ''response'' = Some v
       \<and> subscriptable v \<and> truthy v \<longrightarrow>
     user_response st sid data = (set_result st f v, Return JNull))"
proof -
  have dropped: "dict_get data ''request_id'' JNull = JStr t \<and> pending_user_responses st t = Some f
    \<and> futures st f = Some Pending \<and> map_of data ''response'' \<in> {None, Some (JStr '''')} \<longrightarrow>
     user_response st sid data = (st, Return JNull)
     \<and> fst (user_response st sid data) \<noteq> fst (handle_user_response st t (JStr ''''))
     \<and> fire (st, ts) (UserResponse sid data) = (st, ts)
     \<and> resume (fst (user_response st sid data)) (AskWait c t f q n) Ready
         = (st, Await (AskWait c t f q n))
     \<and> snd (ask_wait_timeout (fst (user_response st sid data)) c t f q n) =
         Return (JObj [(''success'', JBool False),
                       (''error'', JStr (''User did not respond within '' @ str_int n
                                         @ '' seconds'')),
                       (''question'', JStr q)])
     \<and> snd (resume (fst (user_response st sid data)) (AskWait c t f q n) TimedOut) =
         Return (JObj [(''success'', JBool False),
                  (''data'', JObj [(''success'', JBool False),
                       (''error'', JStr (''User did not respond within '' @ str_int n
                                         @ '' seconds'')),
                       (''question'', JStr q)])])"
  proof
    assume h: "dict_get data ''request_id'' JNull = JStr t \<and> pending_user_responses st t = Some f
      \<and> futures st f = Some Pending \<and> map_of data ''response'' \<in> {None, Some (JStr '''')}"
    then have resp: "dict_get data ''response'' (JStr '''') = JStr ''''"
      by (auto simp: dict_get_def)
    have same: "user_response st sid data = (st, Return JNull)"
      using h resp by (simp add: user_response_def Let_def)
    have "futures (fst (handle_user_response st t (JStr ''''))) f = Some (Finished (JStr ''''))"
      using h by (simp add: handle_user_response_def fut_done_def is_done_def set_result_def)
    with h have differs:
      "fst (user_response st sid data) \<noteq> fst (handle_user_response st t (JStr ''''))"
      unfolding same by auto
    have fired: "fire (st, ts) (UserResponse sid data) = (st, ts)"
      by (simp add: same spawn_def)
    have waits: "resume (fst (user_response st sid data)) (AskWait c t f q n) Ready
         = (st, Await (AskWait c t f q n))"
      using h unfolding same by (simp add: resume_def ask_wait_done_def builtin_envelope_def)
    have timeout: "snd (ask_wait_timeout (fst (user_response st sid data)) c t f q n) =
         Return (JObj [(''success'', JBool False),
                       (''error'', JStr (''User did not respond within '' @ str_int n
                                         @ '' seconds'')),
                       (''question'', JStr q)])"
      using h unfolding same by (simp add: ask_wait_timeout_def)
    have wrapped: "snd (resume (fst (user_response st sid data)) (AskWait c t f q n) TimedOut) =
         Return (JObj [(''success'', JBool False),
                  (''data'', JObj [(''success'', JBool False),
                       (''error'', JStr (''User did not respond within '' @ str_int n
                                         @ '' seconds'')),
                       (''question'', JStr q)])])"
      using h unfolding same
      by (simp add: resume_def ask_wait_timeout_def builtin_envelope_def dict_get_def)
    show "user_response st sid data = (st, Return JNull)
     \<and> fst (user_response st sid data) \<noteq> fst (handle_user_response st t (JStr ''''))
     \<and> fire (st, ts) (UserResponse sid data) = (st, ts)
     \<and> resume (fst (user_response st sid data)) (AskWait c t f q n) Ready
         = (st, Await (AskWait c t f q n))
     \<and> snd (ask_wait_timeout (fst (user_response st sid data)) c t f q n) =
         Return (JObj [(''success'', JBool False),
                       (''error'', JStr (''User did not respond within '' @ str_int n
                                         @ '' seconds'')),
                       (''question'', JStr q)])
     \<and> snd (resume (fst (user_response st sid data)) (AskWait c t f q n) TimedOut) =
         Return (JObj [(''success'', JBool False),
                  (''data'', JObj [(''success'', JBool False),
                       (''error'', JStr (''User did not respond within '' @ str_int n
                                         @ '' seconds'')),
                       (''question'', JStr q)])])"
      by (intro conjI same differs fired waits timeout wrapped)
  qed
  have delivered: "dict_get data ''request_id'' JNull = JStr t \<and> t \<noteq> '''' \<and> pending_user_responses st t = Some f
       \<and> futures st f = Some Pending \<and> map_of data ''response'' = Some v
       \<and> subscriptable v \<and> truthy v \<longrightarrow>
     user_response st sid data = (set_result st f v, Return JNull)"
    by (simp add: user_response_def handle_user_response_def dict_get_def fut_done_def
          is_done_def Let_def)
  show ?thesis by (intro conjI dropped delivered)
qed

theorem empty_answer_dropped_witness:
  "dict_get [(''request_id'', JStr ''r1''), (''response'', JStr '''')] ''request_id'' JNull
     = JStr ''r1''
   \<and> pending_user_responses asking_state ''r1'' = Some 0
   \<and> futures asking_state 0 = Some Pending
   \<and> map_of [(''request_id'', JStr ''r1''), (''response'', JStr '''')] ''response''
       \<in> {None, Some (JStr '''')}
   \<and> user_response asking_state ''p1'' [(''request_id'', JStr ''r1''), (''response'', JStr '''')]
       = (asking_state, Return JNull)
   \<and> fire (asking_state, [AskWait ''p1'' ''r1'' 0 ''ok?'' 30])
        (UserResponse ''p1'' [(''request_id'', JStr ''r1''), (''response'', JStr '''')])
       = (asking_state, [AskWait ''p1'' ''r1'' 0 ''ok?'' 30])
   \<and> resume (fst (user_response asking_state ''p1''
                [(''request_id'', JStr ''r1''), (''response'', JStr '''')]))
        (AskWait ''p1'' ''r1'' 0 ''ok?'' 30) Ready
       = (asking_state, Await (AskWait ''p1'' ''r1'' 0 ''ok?'' 30))
   \<and> snd (ask_wait_timeout (fst (user_response asking_state ''p1''
                [(''request_id'', JStr ''r1''), (''response'', JStr '''')]))
            ''p1'' ''r1'' 0 ''ok?'' 30) =
         Return (JObj [(''success'', JBool False),
                       (''error'', JStr (''User did not respond within '' @ str_int 30
                                         @ '' seconds'')),
                       (''question'', JStr ''ok?'')])
   \<and> str_int 30 = ''30''
   \<and> map_of [(''request_id'', JStr ''r1'')] ''response'' \<in> {None, Some (JStr '''')}
   \<and> user_response asking_state ''p1'' [(''request_id'', JStr ''r1'')]
       = (asking_state, Return JNull)
   \<and> ''r1'' \<noteq> ''''
   \<and> map_of [(''request_id'', JStr ''r1''), (''response'', JList [JStr ''yes''])] ''response''
       = Some (JList [JStr ''yes''])
   \<and> subscriptable (JList [JStr ''yes'']) \<and> truthy (JList [JStr ''yes''])
   \<and> user_response asking_state ''p1''
        [(''request_id'', JStr ''r1''), (''response'', JList [JStr ''yes''])]
       = (set_result asking_state 0 (JList [JStr ''yes'']), Return JNull)"
proof -
  let ?d = "[(''request_id'', JStr ''r1''), (''response'', JStr '''')]"
  let ?a = "[(''request_id'', JStr ''r1'')]"
  let ?l = "[(''request_id'', JStr ''r1''), (''response'', JList [JStr ''yes''])]"
  note T = empty_answer_dropped [where data = ?d and t = "''r1''" and st = asking_state
      and f = 0 and sid = "''p1''" and c = "''p1''" and q = "''ok?''" and n = 30
      and ts = "[AskWait ''p1'' ''r1'' 0 ''ok?'' 30]"]
  note U = empty_answer_dropped [where data = ?a and t = "''r1''" and st = asking_state
      and f = 0 and sid = "''p1''"]
  note L = empty_answer_dropped [where data = ?l and t = "''r1''" and st = asking_state
      and f = 0 and sid = "''p1''" and v = "JList [JStr ''yes'']"]
  have h1: "dict_get ?d ''request_id'' JNull = JStr ''r1''" by (simp add: dict_get_def)
  have h2: "pending_user_responses asking_state ''r1'' = Some 0" by (simp add: asking_state_def)
  have h3: "futures asking_state 0 = Some Pending" by (simp add: asking_state_def)
  have h4: "map_of ?d ''response'' \<in> {None, Some (JStr '''')}" by simp
  note c = T [THEN conjunct1, THEN mp, OF conjI [OF h1 conjI [OF h2 conjI [OF h3 h4]]]]
  have s: "str_int 30 = ''30''"
    by (simp add: str_int_def str_nat.simps digit_char_def)
  have u1: "dict_get ?a ''request_id'' JNull = JStr ''r1''" by (simp add: dict_get_def)
  have u4: "map_of ?a ''response'' \<in> {None, Some (JStr '''')}" by simp
  note cu = U [THEN conjunct1, THEN mp, OF conjI [OF u1 conjI [OF h2 conjI [OF h3 u4]]],
      THEN conjunct1]
  have l1: "dict_get ?l ''request_id'' JNull = JStr ''r1''" by (simp add: dict_get_def)
  have l2: "''r1'' \<noteq> ''''" by simp
  have l3: "map_of ?l ''response'' = Some (JList [JStr ''yes''])" by simp
  have l4: "subscriptable (JList [JStr ''yes''])" by simp
  have l5: "truthy (JList [JStr ''yes''])" by simp
  note cl = L [THEN conjunct2, THEN mp,
      OF conjI [OF l1 conjI [OF l2 conjI [OF h2 conjI [OF h3 conjI [OF l3 conjI [OF l4 l5]]]]]]]
  show ?thesis
    by (intro conjI h1 h2 h3 h4 c [THEN conjunct1] c [THEN conjunct2, THEN conjunct2, THEN conjunct1] c [THEN conjunct2, THEN conjunct2, THEN conjunct2, THEN conjunct1] c [THEN conjunct2, THEN conjunct2, THEN conjunct2, THEN conjunct2, THEN conjunct1] s u4 cu l2 l3 l4 l5 cl)
qed

end
